theory Spec2Isabelle
  imports Main
begin

section \<open>The schema: tables, constraints, policies and triggers of the migration\<close>

text \<open>
  The store is the PostgreSQL schema of the migration (\<^verbatim>\<open>src/unnamed/part_000\<close>).
  A table is the list of its rows in insertion order; a \<^verbatim>\<open>TEXT\<close> value is a
  \<^typ>\<open>string\<close>, a \<^verbatim>\<open>UUID\<close> is written as a string too, a
  \<^verbatim>\<open>TIMESTAMP WITH TIME ZONE\<close> is an integer count of clock ticks, and \<^verbatim>\<open>now()\<close>
  and \<^verbatim>\<open>gen_random_uuid()\<close> are arguments of the operation that evaluates them.
  Every column is \<^verbatim>\<open>NOT NULL\<close>, so a stored row has a value in every field.
  The requester's identity \<^verbatim>\<open>auth.uid()\<close> is a \<^typ>\<open>string option\<close>:
  \<open>None\<close> when the request carries no authenticated identity (SQL \<^verbatim>\<open>NULL\<close>).
\<close>

type_synonym uuid = string
type_synonym timestamptz = int

text \<open>
  \<^verbatim>\<open>auth.users\<close> belongs to the identity provider; the migration reads three of its
  columns (\<^verbatim>\<open>id\<close>, \<^verbatim>\<open>email\<close>, \<^verbatim>\<open>raw_user_meta_data\<close>) and refers to its key
  \<^verbatim>\<open>id\<close>. The metadata object is the map from its keys to the text that
  \<^verbatim>\<open>->>\<close> extracts.
\<close>

record auth_user =
  u_id :: uuid
  u_email :: "string option"
  u_raw_user_meta_data :: "string \<rightharpoonup> string"

record profile =
  p_id :: uuid
  p_nome :: string
  p_email :: string
  p_created_at :: timestamptz
  p_updated_at :: timestamptz

record aluno =
  a_id :: uuid
  a_nome :: string
  a_email :: string
  a_matricula :: string
  a_idade :: int
  a_criado_por :: uuid
  a_created_at :: timestamptz
  a_updated_at :: timestamptz

record db =
  users :: "auth_user list"
  profiles :: "profile list"
  alunos :: "aluno list"

definition empty_db :: db where
  "empty_db = \<lparr>users = [], profiles = [], alunos = []\<rparr>"

text \<open>
  What a request may carry for a row: a value for any subset of the columns. \<open>None\<close> is
  a column the request leaves out (an insert then takes the column's default, an update
  keeps the stored value).
\<close>

record aluno_payload =
  pl_id :: "uuid option"
  pl_nome :: "string option"
  pl_email :: "string option"
  pl_matricula :: "string option"
  pl_idade :: "int option"
  pl_criado_por :: "uuid option"
  pl_created_at :: "timestamptz option"
  pl_updated_at :: "timestamptz option"

record profile_payload =
  pp_id :: "uuid option"
  pp_nome :: "string option"
  pp_email :: "string option"
  pp_created_at :: "timestamptz option"
  pp_updated_at :: "timestamptz option"

text \<open>
  The errors of the store, each with the name of the table, column or constraint that
  PostgreSQL reports. The constraints of the migration are unnamed, so they carry
  PostgreSQL's default names (\<^verbatim>\<open>alunos_pkey\<close>, \<^verbatim>\<open>alunos_email_key\<close>,
  \<^verbatim>\<open>alunos_matricula_key\<close>, \<^verbatim>\<open>alunos_idade_check\<close>,
  \<^verbatim>\<open>alunos_criado_por_fkey\<close>, ...).
\<close>

datatype pg_error =
    RlsViolation string
  | NotNullViolation string string
  | CheckViolation string string
  | UniqueViolation string
  | ForeignKeyViolation string string
  | NumericValueOutOfRange

definition coalesce :: "'a option \<Rightarrow> 'a \<Rightarrow> 'a" where
  "coalesce v d = (case v of None \<Rightarrow> d | Some x \<Rightarrow> x)"

subsection \<open>Row-level security policies\<close>

text \<open>
  \<^verbatim>\<open>USING (auth.uid() = criado_por)\<close> and \<^verbatim>\<open>WITH CHECK (auth.uid() = criado_por)\<close>:
  the comparison is true only when the requester has an identity and it equals the
  owner column. All four policies on \<^verbatim>\<open>alunos\<close> use this expression, and the three
  on \<^verbatim>\<open>profiles\<close> use \<^verbatim>\<open>auth.uid() = id\<close>.
\<close>

definition alunos_policy :: "uuid option \<Rightarrow> uuid \<Rightarrow> bool" where
  "alunos_policy uid criado_por = (uid = Some criado_por)"

definition profiles_policy :: "uuid option \<Rightarrow> uuid \<Rightarrow> bool" where
  "profiles_policy uid pid = (uid = Some pid)"

subsection \<open>Constraints\<close>

text \<open>\<^verbatim>\<open>idade INTEGER\<close>: a four-byte signed integer.\<close>

definition in_integer_range :: "int \<Rightarrow> bool" where
  "in_integer_range v = (- 2147483648 \<le> v \<and> v \<le> 2147483647)"

text \<open>\<^verbatim>\<open>CHECK (idade > 0 AND idade < 150)\<close>\<close>

definition alunos_idade_check :: "int \<Rightarrow> bool" where
  "alunos_idade_check idade = (idade > 0 \<and> idade < 150)"

subsection \<open>Triggers\<close>

text \<open>
  \<^verbatim>\<open>update_updated_at_column\<close>, run \<^verbatim>\<open>BEFORE UPDATE ... FOR EACH ROW\<close> on both tables:
  \<^verbatim>\<open>NEW.updated_at = now(); RETURN NEW;\<close>
\<close>

definition update_updated_at_column_aluno :: "timestamptz \<Rightarrow> aluno \<Rightarrow> aluno" where
  "update_updated_at_column_aluno now new = new\<lparr>a_updated_at := now\<rparr>"

definition update_updated_at_column_profile :: "timestamptz \<Rightarrow> profile \<Rightarrow> profile" where
  "update_updated_at_column_profile now new = new\<lparr>p_updated_at := now\<rparr>"

text \<open>
  \<^verbatim>\<open>handle_new_user\<close>, run \<^verbatim>\<open>AFTER INSERT ON auth.users FOR EACH ROW\<close> as
  \<^verbatim>\<open>SECURITY DEFINER\<close>, so no row-level policy applies to its insert:
  \<^verbatim>\<open>INSERT INTO public.profiles (id, nome, email)
  VALUES (new.id, COALESCE(new.raw_user_meta_data->>'nome', ''), new.email)\<close>.
  The insert checks the columns' \<^verbatim>\<open>NOT NULL\<close>, then the key and the unique email, then
  the reference to \<^verbatim>\<open>auth.users\<close>; \<^verbatim>\<open>created_at\<close> and \<^verbatim>\<open>updated_at\<close> take their
  default \<^verbatim>\<open>now()\<close>. The state it runs on already holds the new user.
\<close>

definition handle_new_user :: "timestamptz \<Rightarrow> auth_user \<Rightarrow> db \<Rightarrow> pg_error + db" where
  "handle_new_user now new s =
     (case u_email new of
        None \<Rightarrow> Inl (NotNullViolation ''profiles'' ''email'')
      | Some e \<Rightarrow>
          if u_id new \<in> set (map p_id (profiles s)) then Inl (UniqueViolation ''profiles_pkey'')
          else if e \<in> set (map p_email (profiles s)) then Inl (UniqueViolation ''profiles_email_key'')
          else if u_id new \<notin> set (map u_id (users s)) then Inl (ForeignKeyViolation ''profiles'' ''profiles_id_fkey'')
          else Inr (s\<lparr>profiles := profiles s @
                 [\<lparr>p_id = u_id new,
                   p_nome = coalesce (u_raw_user_meta_data new ''nome'') '''',
                   p_email = e,
                   p_created_at = now,
                   p_updated_at = now\<rparr>]\<rparr>))"

section \<open>Operations at the storage boundary\<close>

subsection \<open>Identities\<close>

text \<open>
  Creating an identity inserts the row into \<^verbatim>\<open>auth.users\<close> and fires
  \<^verbatim>\<open>on_auth_user_created\<close> in the same transaction: an error of the trigger aborts the
  insert, and the caller keeps the state it had.
\<close>

definition create_identity :: "timestamptz \<Rightarrow> auth_user \<Rightarrow> db \<Rightarrow> pg_error + db" where
  "create_identity now new s =
     (if u_id new \<in> set (map u_id (users s)) then Inl (UniqueViolation ''users_pkey'')
      else handle_new_user now new (s\<lparr>users := users s @ [new]\<rparr>))"

text \<open>
  Deleting an identity: \<^verbatim>\<open>profiles.id ... ON DELETE CASCADE\<close> removes its profile, and
  \<^verbatim>\<open>alunos.criado_por ... ON DELETE CASCADE\<close> removes the students of that profile.
\<close>

definition delete_identity :: "uuid \<Rightarrow> db \<Rightarrow> db" where
  "delete_identity uid s =
     \<lparr>users = filter (\<lambda>u. u_id u \<noteq> uid) (users s),
      profiles = filter (\<lambda>p. p_id p \<noteq> uid) (profiles s),
      alunos = filter (\<lambda>r. a_criado_por r \<noteq> uid) (alunos s)\<rparr>"

subsection \<open>Students\<close>

text \<open>\<^verbatim>\<open>SELECT\<close> under the policy "Users can view their own students".\<close>

definition select_alunos :: "uuid option \<Rightarrow> db \<Rightarrow> aluno list" where
  "select_alunos uid s = filter (\<lambda>r. alunos_policy uid (a_criado_por r)) (alunos s)"

text \<open>
  \<^verbatim>\<open>INSERT\<close>: the payload's integer is read first, then the policy's
  \<^verbatim>\<open>WITH CHECK\<close> on the new row, the \<^verbatim>\<open>NOT NULL\<close> columns in table order, the
  \<^verbatim>\<open>CHECK\<close>, the unique indexes in the order of their creation (key, email,
  matricula), and last the reference to \<^verbatim>\<open>profiles\<close>. An error leaves the table as
  it was.
\<close>

definition insert_alunos ::
  "uuid option \<Rightarrow> timestamptz \<Rightarrow> uuid \<Rightarrow> aluno_payload \<Rightarrow> db \<Rightarrow> pg_error + db" where
  "insert_alunos uid now gen_random_uuid p s =
     (if \<not> (case pl_idade p of None \<Rightarrow> True | Some v \<Rightarrow> in_integer_range v)
        then Inl NumericValueOutOfRange
      else case pl_criado_por p of
        None \<Rightarrow> Inl (RlsViolation ''alunos'')
      | Some criado_por \<Rightarrow>
      if \<not> alunos_policy uid criado_por then Inl (RlsViolation ''alunos'')
      else case pl_nome p of None \<Rightarrow> Inl (NotNullViolation ''alunos'' ''nome'') | Some nome \<Rightarrow>
           case pl_email p of None \<Rightarrow> Inl (NotNullViolation ''alunos'' ''email'') | Some email \<Rightarrow>
           case pl_matricula p of None \<Rightarrow> Inl (NotNullViolation ''alunos'' ''matricula'') | Some matricula \<Rightarrow>
           case pl_idade p of None \<Rightarrow> Inl (NotNullViolation ''alunos'' ''idade'') | Some idade \<Rightarrow>
      if \<not> alunos_idade_check idade then Inl (CheckViolation ''alunos'' ''alunos_idade_check'')
      else if coalesce (pl_id p) gen_random_uuid \<in> set (map a_id (alunos s))
        then Inl (UniqueViolation ''alunos_pkey'')
      else if email \<in> set (map a_email (alunos s)) then Inl (UniqueViolation ''alunos_email_key'')
      else if matricula \<in> set (map a_matricula (alunos s))
        then Inl (UniqueViolation ''alunos_matricula_key'')
      else if criado_por \<notin> set (map p_id (profiles s))
        then Inl (ForeignKeyViolation ''alunos'' ''alunos_criado_por_fkey'')
      else Inr (s\<lparr>alunos := alunos s @
             [\<lparr>a_id = coalesce (pl_id p) gen_random_uuid,
               a_nome = nome,
               a_email = email,
               a_matricula = matricula,
               a_idade = idade,
               a_criado_por = criado_por,
               a_created_at = coalesce (pl_created_at p) now,
               a_updated_at = coalesce (pl_updated_at p) now\<rparr>]\<rparr>))"

text \<open>The new row of an \<^verbatim>\<open>UPDATE ... SET\<close>: the payload's columns over the stored row.\<close>

definition aluno_set :: "aluno_payload \<Rightarrow> aluno \<Rightarrow> aluno" where
  "aluno_set p old =
     \<lparr>a_id = coalesce (pl_id p) (a_id old),
      a_nome = coalesce (pl_nome p) (a_nome old),
      a_email = coalesce (pl_email p) (a_email old),
      a_matricula = coalesce (pl_matricula p) (a_matricula old),
      a_idade = coalesce (pl_idade p) (a_idade old),
      a_criado_por = coalesce (pl_criado_por p) (a_criado_por old),
      a_created_at = coalesce (pl_created_at p) (a_created_at old),
      a_updated_at = coalesce (pl_updated_at p) (a_updated_at old)\<rparr>"

text \<open>
  \<^verbatim>\<open>UPDATE ... WHERE id = target\<close>, the only update the client sends. The policy's
  \<^verbatim>\<open>USING\<close> filters the rows the statement sees: a row of another owner (or no row of
  that id) makes it an update of zero rows, which is no error. \<^verbatim>\<open>id\<close> is the primary
  key, so at most one row matches. On the matching row the payload's integer is read,
  the trigger runs, then the
  policy (a policy \<^verbatim>\<open>FOR UPDATE\<close> with no \<^verbatim>\<open>WITH CHECK\<close> checks the new row against its
  \<^verbatim>\<open>USING\<close> expression), the \<^verbatim>\<open>CHECK\<close>, the unique indexes against the other rows,
  and the reference to \<^verbatim>\<open>profiles\<close>.
\<close>

definition update_alunos ::
  "uuid option \<Rightarrow> timestamptz \<Rightarrow> uuid \<Rightarrow> aluno_payload \<Rightarrow> db \<Rightarrow> pg_error + db" where
  "update_alunos uid now target p s =
     (case List.extract (\<lambda>r. a_id r = target \<and> alunos_policy uid (a_criado_por r)) (alunos s) of
        None \<Rightarrow> Inr s
      | Some (before, old, after) \<Rightarrow>
          let new = update_updated_at_column_aluno now (aluno_set p old);
              others = before @ after
          in if \<not> (case pl_idade p of None \<Rightarrow> True | Some v \<Rightarrow> in_integer_range v)
               then Inl NumericValueOutOfRange
             else if \<not> alunos_policy uid (a_criado_por new) then Inl (RlsViolation ''alunos'')
             else if \<not> alunos_idade_check (a_idade new)
               then Inl (CheckViolation ''alunos'' ''alunos_idade_check'')
             else if a_id new \<in> set (map a_id others) then Inl (UniqueViolation ''alunos_pkey'')
             else if a_email new \<in> set (map a_email others)
               then Inl (UniqueViolation ''alunos_email_key'')
             else if a_matricula new \<in> set (map a_matricula others)
               then Inl (UniqueViolation ''alunos_matricula_key'')
             else if a_criado_por new \<notin> set (map p_id (profiles s))
               then Inl (ForeignKeyViolation ''alunos'' ''alunos_criado_por_fkey'')
             else Inr (s\<lparr>alunos := before @ new # after\<rparr>))"

text \<open>
  \<^verbatim>\<open>DELETE ... WHERE id = target\<close> under the policy "Users can delete their own
  students": the rows of that id that the requester owns go; nothing refers to
  \<^verbatim>\<open>alunos\<close>, so the statement has no error of its own.
\<close>

definition delete_alunos :: "uuid option \<Rightarrow> uuid \<Rightarrow> db \<Rightarrow> pg_error + db" where
  "delete_alunos uid target s =
     Inr (s\<lparr>alunos := filter (\<lambda>r. \<not> (a_id r = target \<and> alunos_policy uid (a_criado_por r))) (alunos s)\<rparr>)"

subsection \<open>Profiles\<close>

text \<open>
  \<^verbatim>\<open>INSERT\<close> under "Users can insert their own profile" and
  \<^verbatim>\<open>UPDATE ... WHERE id = target\<close> under "Users can update their own profile". No policy
  allows a \<^verbatim>\<open>DELETE\<close> on \<^verbatim>\<open>profiles\<close>. An update that changes the key of a profile that
  students refer to violates their reference (\<^verbatim>\<open>ON UPDATE\<close> is left at no action).
\<close>

definition insert_profiles ::
  "uuid option \<Rightarrow> timestamptz \<Rightarrow> profile_payload \<Rightarrow> db \<Rightarrow> pg_error + db" where
  "insert_profiles uid now p s =
     (case pp_id p of
        None \<Rightarrow> Inl (RlsViolation ''profiles'')
      | Some pid \<Rightarrow>
      if \<not> profiles_policy uid pid then Inl (RlsViolation ''profiles'')
      else case pp_nome p of None \<Rightarrow> Inl (NotNullViolation ''profiles'' ''nome'') | Some nome \<Rightarrow>
           case pp_email p of None \<Rightarrow> Inl (NotNullViolation ''profiles'' ''email'') | Some email \<Rightarrow>
      if pid \<in> set (map p_id (profiles s)) then Inl (UniqueViolation ''profiles_pkey'')
      else if email \<in> set (map p_email (profiles s)) then Inl (UniqueViolation ''profiles_email_key'')
      else if pid \<notin> set (map u_id (users s)) then Inl (ForeignKeyViolation ''profiles'' ''profiles_id_fkey'')
      else Inr (s\<lparr>profiles := profiles s @
             [\<lparr>p_id = pid,
               p_nome = nome,
               p_email = email,
               p_created_at = coalesce (pp_created_at p) now,
               p_updated_at = coalesce (pp_updated_at p) now\<rparr>]\<rparr>))"

definition profile_set :: "profile_payload \<Rightarrow> profile \<Rightarrow> profile" where
  "profile_set p old =
     \<lparr>p_id = coalesce (pp_id p) (p_id old),
      p_nome = coalesce (pp_nome p) (p_nome old),
      p_email = coalesce (pp_email p) (p_email old),
      p_created_at = coalesce (pp_created_at p) (p_created_at old),
      p_updated_at = coalesce (pp_updated_at p) (p_updated_at old)\<rparr>"

definition update_profiles ::
  "uuid option \<Rightarrow> timestamptz \<Rightarrow> uuid \<Rightarrow> profile_payload \<Rightarrow> db \<Rightarrow> pg_error + db" where
  "update_profiles uid now target p s =
     (case List.extract (\<lambda>r. p_id r = target \<and> profiles_policy uid (p_id r)) (profiles s) of
        None \<Rightarrow> Inr s
      | Some (before, old, after) \<Rightarrow>
          let new = update_updated_at_column_profile now (profile_set p old);
              others = before @ after
          in if \<not> profiles_policy uid (p_id new) then Inl (RlsViolation ''profiles'')
             else if p_id new \<in> set (map p_id others) then Inl (UniqueViolation ''profiles_pkey'')
             else if p_email new \<in> set (map p_email others)
               then Inl (UniqueViolation ''profiles_email_key'')
             else if p_id new \<notin> set (map u_id (users s))
               then Inl (ForeignKeyViolation ''profiles'' ''profiles_id_fkey'')
             else if p_id new \<noteq> p_id old \<and> p_id old \<in> set (map a_criado_por (alunos s))
               then Inl (ForeignKeyViolation ''alunos'' ''alunos_criado_por_fkey'')
             else Inr (s\<lparr>profiles := before @ new # after\<rparr>))"

subsection \<open>Histories of the store\<close>

text \<open>
  Every statement the store accepts from outside, with the values of \<^verbatim>\<open>auth.uid()\<close>,
  \<^verbatim>\<open>now()\<close> and \<^verbatim>\<open>gen_random_uuid()\<close> it runs with. A statement that ends in an error
  is rolled back: the state after it is the state before it. The states the store can be
  in are the ones a list of statements leads to from the empty database.
\<close>

datatype statement =
    CreateIdentity timestamptz auth_user
  | DeleteIdentity uuid
  | InsertAlunos "uuid option" timestamptz uuid aluno_payload
  | UpdateAlunos "uuid option" timestamptz uuid aluno_payload
  | DeleteAlunos "uuid option" uuid
  | InsertProfiles "uuid option" timestamptz profile_payload
  | UpdateProfiles "uuid option" timestamptz uuid profile_payload

fun execute :: "statement \<Rightarrow> db \<Rightarrow> pg_error + db" where
  "execute (CreateIdentity now new) s = create_identity now new s"
| "execute (DeleteIdentity uid) s = Inr (delete_identity uid s)"
| "execute (InsertAlunos uid now gen_random_uuid p) s = insert_alunos uid now gen_random_uuid p s"
| "execute (UpdateAlunos uid now target p) s = update_alunos uid now target p s"
| "execute (DeleteAlunos uid target) s = delete_alunos uid target s"
| "execute (InsertProfiles uid now p) s = insert_profiles uid now p s"
| "execute (UpdateProfiles uid now target p) s = update_profiles uid now target p s"

definition state_after :: "pg_error + db \<Rightarrow> db \<Rightarrow> db" where
  "state_after result s = (case result of Inl _ \<Rightarrow> s | Inr s' \<Rightarrow> s')"

fun run :: "statement list \<Rightarrow> db \<Rightarrow> db" where
  "run [] s = s"
| "run (st # sts) s = run sts (state_after (execute st s) s)"

text \<open>
  The primary message of each error, which is what the client reads as
  \<^verbatim>\<open>error.message\<close>.
\<close>

fun pg_message :: "pg_error \<Rightarrow> string" where
  \<open>pg_message (RlsViolation t) =
     ''new row violates row-level security policy for table "'' @ t @ ''"''\<close>
| \<open>pg_message (NotNullViolation t c) =
     ''null value in column "'' @ c @ ''" of relation "'' @ t @ ''" violates not-null constraint''\<close>
| \<open>pg_message (CheckViolation t c) =
     ''new row for relation "'' @ t @ ''" violates check constraint "'' @ c @ ''"''\<close>
| \<open>pg_message (UniqueViolation c) =
     ''duplicate key value violates unique constraint "'' @ c @ ''"''\<close>
| \<open>pg_message (ForeignKeyViolation t c) =
     ''insert or update on table "'' @ t @ ''" violates foreign key constraint "'' @ c @ ''"''\<close>
| \<open>pg_message NumericValueOutOfRange = ''integer out of range''\<close>

section \<open>The client: the form and the dashboard\<close>

text \<open>
  A JavaScript string is a \<^typ>\<open>string\<close> whose characters are its code units (the
  ones below 256: the texts of the source are within Latin-1), so \<open>length\<close> is
  \<^verbatim>\<open>.length\<close>.
\<close>

subsection \<open>Strings and numbers of the language\<close>

text \<open>
  The white space and line terminators that \<^verbatim>\<open>trim\<close> and \<^verbatim>\<open>parseInt\<close> skip: tab,
  line feed, vertical tab, form feed, carriage return, space and the no-break space.
\<close>

definition js_whitespace :: "char \<Rightarrow> bool" where
  "js_whitespace c =
     (c = CHR 0x09 \<or> c = CHR 0x0A \<or> c = CHR 0x0B \<or> c = CHR 0x0C \<or> c = CHR 0x0D
      \<or> c = CHR 0x20 \<or> c = CHR 0xA0)"

definition trim :: "string \<Rightarrow> string" where
  "trim s = rev (dropWhile js_whitespace (rev (dropWhile js_whitespace s)))"

text \<open>\<^verbatim>\<open>s.includes(t)\<close>: \<open>t\<close> occurs in \<open>s\<close> at some position.\<close>

fun starts_with :: "string \<Rightarrow> string \<Rightarrow> bool" where
  "starts_with s [] = True"
| "starts_with [] (c # t) = False"
| "starts_with (d # s) (c # t) = (d = c \<and> starts_with s t)"

fun js_includes :: "string \<Rightarrow> string \<Rightarrow> bool" where
  "js_includes [] t = (t = [])"
| "js_includes (d # s) t = (starts_with (d # s) t \<or> js_includes s t)"

text \<open>
  A number is not-a-number, an infinity or a finite value; the finite values that occur
  are integers (\<^verbatim>\<open>parseInt\<close> makes no other), kept exact. An integer of magnitude
  \<open>2^1024 - 2^970\<close> or more has no finite double next to it and becomes an
  infinity; below that the conversion rounds to the nearest double, which keeps the
  order and leaves the integers up to \<open>2^53\<close> as they are, so every comparison with 1 and
  150 made below is the comparison of the doubles.
\<close>

datatype js_number = NaN | PosInfinity | NegInfinity | Finite int

definition to_number :: "int \<Rightarrow> js_number" where
  "to_number v =
     (if v \<ge> 2 ^ 1024 - 2 ^ 970 then PosInfinity
      else if v \<le> - (2 ^ 1024 - 2 ^ 970) then NegInfinity
      else Finite v)"

definition digit_value :: "char \<Rightarrow> nat option" where
  "digit_value c =
     (let n = (of_char c :: nat)
      in if 48 \<le> n \<and> n \<le> 57 then Some (n - 48)
         else if 97 \<le> n \<and> n \<le> 122 then Some (n - 87)
         else if 65 \<le> n \<and> n \<le> 90 then Some (n - 55)
         else None)"

definition radix_digit :: "nat \<Rightarrow> char \<Rightarrow> bool" where
  "radix_digit R c = (case digit_value c of None \<Rightarrow> False | Some d \<Rightarrow> d < R)"

definition digits_value :: "nat \<Rightarrow> string \<Rightarrow> nat" where
  "digits_value R z =
     foldl (\<lambda>acc c. case digit_value c of None \<Rightarrow> acc | Some d \<Rightarrow> acc * R + d) 0 z"

text \<open>
  \<^verbatim>\<open>parseInt(s)\<close> with no radix: skip leading white space, take a sign, take the prefix
  \<^verbatim>\<open>0x\<close> or \<^verbatim>\<open>0X\<close> as radix 16 and radix 10 otherwise, and read the longest run of
  digits of that radix; no digit gives \<^verbatim>\<open>NaN\<close>, and what follows the digits is
  ignored.
\<close>

definition parseInt :: "string \<Rightarrow> js_number" where
  "parseInt s =
     (let s1 = dropWhile js_whitespace s;
          (sign, s2) = (case s1 of
                          [] \<Rightarrow> (1, [])
                        | c # r \<Rightarrow> if c = CHR ''-'' then (- 1, r)
                                   else if c = CHR ''+'' then (1, r) else (1 :: int, s1));
          (R, s3) = (case s2 of
                       a # b # r \<Rightarrow> if a = CHR ''0'' \<and> (b = CHR ''x'' \<or> b = CHR ''X'')
                                     then (16, r) else (10 :: nat, s2)
                     | _ \<Rightarrow> (10, s2));
          z = takeWhile (radix_digit R) s3
      in if z = [] then NaN else to_number (sign * int (digits_value R z)))"

subsection \<open>The texts shown to the user\<close>

definition msg_nome_min :: string where
  "msg_nome_min = ''Nome deve ter no m'' @ [CHR 0xED] @ ''nimo 2 caracteres''"

definition msg_email_invalido :: string where
  "msg_email_invalido = ''Email inv'' @ [CHR 0xE1] @ ''lido''"

definition msg_matricula_min :: string where
  "msg_matricula_min = ''Matr'' @ [CHR 0xED] @ ''cula deve ter no m'' @ [CHR 0xED] @ ''nimo 3 caracteres''"

definition msg_idade_min :: string where
  "msg_idade_min = ''Idade deve ser maior que 0''"

definition msg_idade_max :: string where
  "msg_idade_max = ''Idade inv'' @ [CHR 0xE1] @ ''lida''"

definition msg_nao_autenticado :: string where
  "msg_nao_autenticado = ''Usu'' @ [CHR 0xE1] @ ''rio n'' @ [CHR 0xE3] @ ''o autenticado''"

definition msg_email_cadastrado :: string where
  "msg_email_cadastrado = ''Este email j'' @ [CHR 0xE1] @ '' est'' @ [CHR 0xE1] @ '' cadastrado''"

definition msg_matricula_cadastrada :: string where
  "msg_matricula_cadastrada =
     ''Esta matr'' @ [CHR 0xED] @ ''cula j'' @ [CHR 0xE1] @ '' est'' @ [CHR 0xE1] @ '' cadastrada''"

definition msg_erro_atualizar :: string where
  "msg_erro_atualizar = ''Erro ao atualizar aluno''"

definition msg_atualizado :: string where
  "msg_atualizado = ''Aluno atualizado com sucesso!''"

definition msg_erro_criar :: string where
  "msg_erro_criar = ''Erro ao criar aluno''"

definition msg_criado :: string where
  "msg_criado = ''Aluno criado com sucesso!''"

definition msg_erro_excluir :: string where
  "msg_erro_excluir = ''Erro ao excluir aluno''"

definition msg_excluido :: string where
  "msg_excluido = ''Aluno exclu'' @ [CHR 0xED] @ ''do com sucesso!''"

text \<open>The messages the validation library gives a rule that names none.\<close>

definition msg_too_big_100 :: string where
  "msg_too_big_100 = ''String must contain at most 100 character(s)''"

definition msg_too_big_255 :: string where
  "msg_too_big_255 = ''String must contain at most 255 character(s)''"

definition msg_too_big_50 :: string where
  "msg_too_big_50 = ''String must contain at most 50 character(s)''"

definition msg_received_nan :: string where
  "msg_received_nan = ''Expected number, received nan''"

definition msg_received_float :: string where
  "msg_received_float = ''Expected integer, received float''"

subsection \<open>The schema of the form\<close>

text \<open>
  \<^verbatim>\<open>alunoSchema\<close> (\<^verbatim>\<open>AlunoForm.tsx\<close>). The schema library is not part of the
  repository; what the repository uses of it is modelled here. Parsing an object visits
  the keys in the order the schema lists them and collects the issues in that order; a
  string runs its checks in the order they are chained (\<^verbatim>\<open>trim\<close> replaces the value
  by the trimmed one, each later check adds its issue when it fails); a number that is
  \<^verbatim>\<open>NaN\<close> is a type issue and runs no check, any other number runs \<^verbatim>\<open>int\<close>,
  \<^verbatim>\<open>min\<close> and \<^verbatim>\<open>max\<close>. What \<^verbatim>\<open>email()\<close> takes for a well-formed address is the
  library's pattern, an argument \<open>email_ok\<close> here.
\<close>

record zod_issue =
  i_path :: string
  i_message :: string

record validated =
  v_nome :: string
  v_email :: string
  v_matricula :: string
  v_idade :: int

text \<open>\<^verbatim>\<open>nome: z.string().trim().min(2, {message: ...}).max(100)\<close>\<close>

definition nome_issues :: "string \<Rightarrow> zod_issue list" where
  "nome_issues v =
     (let d = trim v
      in (if length d < 2 then [\<lparr>i_path = ''nome'', i_message = msg_nome_min\<rparr>] else []) @
         (if length d > 100 then [\<lparr>i_path = ''nome'', i_message = msg_too_big_100\<rparr>] else []))"

text \<open>\<^verbatim>\<open>email: z.string().trim().email({message: ...}).max(255)\<close>\<close>

definition email_issues :: "(string \<Rightarrow> bool) \<Rightarrow> string \<Rightarrow> zod_issue list" where
  "email_issues email_ok v =
     (let d = trim v
      in (if \<not> email_ok d then [\<lparr>i_path = ''email'', i_message = msg_email_invalido\<rparr>] else []) @
         (if length d > 255 then [\<lparr>i_path = ''email'', i_message = msg_too_big_255\<rparr>] else []))"

text \<open>\<^verbatim>\<open>matricula: z.string().trim().min(3, {message: ...}).max(50)\<close>\<close>

definition matricula_issues :: "string \<Rightarrow> zod_issue list" where
  "matricula_issues v =
     (let d = trim v
      in (if length d < 3 then [\<lparr>i_path = ''matricula'', i_message = msg_matricula_min\<rparr>] else []) @
         (if length d > 50 then [\<lparr>i_path = ''matricula'', i_message = msg_too_big_50\<rparr>] else []))"

text \<open>\<^verbatim>\<open>Number.isInteger\<close>, \<^verbatim>\<open><\<close> and \<^verbatim>\<open>>\<close> on a number and an integer bound.\<close>

fun is_integer :: "js_number \<Rightarrow> bool" where
  "is_integer (Finite v) = True"
| "is_integer _ = False"

fun js_less :: "js_number \<Rightarrow> int \<Rightarrow> bool" where
  "js_less (Finite v) k = (v < k)"
| "js_less NegInfinity k = True"
| "js_less _ k = False"

fun js_greater :: "js_number \<Rightarrow> int \<Rightarrow> bool" where
  "js_greater (Finite v) k = (v > k)"
| "js_greater PosInfinity k = True"
| "js_greater _ k = False"

text \<open>\<^verbatim>\<open>idade: z.number().int().min(1, {message: ...}).max(150, {message: ...})\<close>\<close>

definition idade_issues :: "js_number \<Rightarrow> zod_issue list" where
  "idade_issues n =
     (if n = NaN then [\<lparr>i_path = ''idade'', i_message = msg_received_nan\<rparr>]
      else (if \<not> is_integer n then [\<lparr>i_path = ''idade'', i_message = msg_received_float\<rparr>] else []) @
           (if js_less n 1 then [\<lparr>i_path = ''idade'', i_message = msg_idade_min\<rparr>] else []) @
           (if js_greater n 150 then [\<lparr>i_path = ''idade'', i_message = msg_idade_max\<rparr>] else []))"

text \<open>
  \<^verbatim>\<open>alunoSchema.parse({nome, email, matricula, idade})\<close>: the validated object (the
  strings trimmed), or the error that carries the issues.
\<close>

definition alunoSchema_parse ::
  "(string \<Rightarrow> bool) \<Rightarrow> string \<Rightarrow> string \<Rightarrow> string \<Rightarrow> js_number \<Rightarrow> zod_issue list + validated" where
  "alunoSchema_parse email_ok nome email matricula idade =
     (let issues = nome_issues nome @ email_issues email_ok email @
                   matricula_issues matricula @ idade_issues idade
      in case (issues, idade) of
           ([], Finite n) \<Rightarrow>
             Inr \<lparr>v_nome = trim nome, v_email = trim email, v_matricula = trim matricula, v_idade = n\<rparr>
         | _ \<Rightarrow> Inl issues)"

subsection \<open>The form's submit handler\<close>

record AlunoFormData =
  fd_nome :: string
  fd_email :: string
  fd_matricula :: string
  fd_idade :: string

datatype toast = ToastError string | ToastSuccess string

datatype request = Insert aluno_payload | Update uuid aluno_payload | Delete uuid

text \<open>
  What a handler leaves behind: the toasts it showed, the requests it sent to the store,
  the store after them, and whether the list was fetched again (\<^verbatim>\<open>onSuccess()\<close>, which
  the dashboard binds to \<^verbatim>\<open>handleFormSuccess\<close>, and the \<^verbatim>\<open>fetchAlunos()\<close> of
  \<^verbatim>\<open>handleDelete\<close>).
\<close>

record outcome =
  toasts :: "toast list"
  requests :: "request list"
  store :: db
  refreshed :: bool

text \<open>
  The branch on \<^verbatim>\<open>error\<close> after an update or an insert, with the generic text of that
  branch:
  \<^verbatim>\<open>if (error.message.includes("duplicate key")) {
    if (error.message.includes("email")) toast.error(...)
    else if (error.message.includes("matricula")) toast.error(...)
  } else toast.error(generic)\<close>
\<close>

definition report_error :: "string \<Rightarrow> string \<Rightarrow> toast list" where
  "report_error generic error_message =
     (if js_includes error_message ''duplicate key'' then
        (if js_includes error_message ''email'' then [ToastError msg_email_cadastrado]
         else if js_includes error_message ''matricula'' then [ToastError msg_matricula_cadastrada]
         else [])
      else [ToastError generic])"

text \<open>\<^verbatim>\<open>.update(validated)\<close>: the four keys of the validated object.\<close>

definition update_payload :: "validated \<Rightarrow> aluno_payload" where
  "update_payload v =
     \<lparr>pl_id = None, pl_nome = Some (v_nome v), pl_email = Some (v_email v),
      pl_matricula = Some (v_matricula v), pl_idade = Some (v_idade v),
      pl_criado_por = None, pl_created_at = None, pl_updated_at = None\<rparr>"

text \<open>\<^verbatim>\<open>.insert([{nome, email, matricula, idade, criado_por: user.id}])\<close>\<close>

definition insert_payload :: "validated \<Rightarrow> uuid \<Rightarrow> aluno_payload" where
  "insert_payload v user_id =
     \<lparr>pl_id = None, pl_nome = Some (v_nome v), pl_email = Some (v_email v),
      pl_matricula = Some (v_matricula v), pl_idade = Some (v_idade v),
      pl_criado_por = Some user_id, pl_created_at = None, pl_updated_at = None\<rparr>"

text \<open>
  \<^verbatim>\<open>handleSubmit\<close> of \<^verbatim>\<open>AlunoForm\<close>. \<open>user\<close> is the identity of the session
  (\<^verbatim>\<open>supabase.auth.getUser()\<close>, and the \<^verbatim>\<open>auth.uid()\<close> of the requests it sends),
  \<open>aluno\<close> the row being edited (none when the form creates), \<open>now\<close> and
  \<open>gen_random_uuid\<close> what the store evaluates while it serves the request. The
  validation error is caught and its first issue shown.
\<close>

definition handleSubmit ::
  "(string \<Rightarrow> bool) \<Rightarrow> uuid option \<Rightarrow> aluno option \<Rightarrow> AlunoFormData \<Rightarrow>
   timestamptz \<Rightarrow> uuid \<Rightarrow> db \<Rightarrow> outcome" where
  "handleSubmit email_ok user aluno formData now gen_random_uuid s =
     (case alunoSchema_parse email_ok (fd_nome formData) (fd_email formData)
             (fd_matricula formData) (parseInt (fd_idade formData)) of
        Inl errors \<Rightarrow>
          \<lparr>toasts = (case errors of [] \<Rightarrow> [] | e # _ \<Rightarrow> [ToastError (i_message e)]),
           requests = [], store = s, refreshed = False\<rparr>
      | Inr validated \<Rightarrow>
          (case user of
             None \<Rightarrow>
               \<lparr>toasts = [ToastError msg_nao_autenticado], requests = [], store = s,
                refreshed = False\<rparr>
           | Some user_id \<Rightarrow>
               (case aluno of
                  Some a \<Rightarrow>
                    (case update_alunos user now (a_id a) (update_payload validated) s of
                       Inl error \<Rightarrow>
                         \<lparr>toasts = report_error msg_erro_atualizar (pg_message error),
                          requests = [Update (a_id a) (update_payload validated)],
                          store = s, refreshed = False\<rparr>
                     | Inr s' \<Rightarrow>
                         \<lparr>toasts = [ToastSuccess msg_atualizado],
                          requests = [Update (a_id a) (update_payload validated)],
                          store = s', refreshed = True\<rparr>)
                | None \<Rightarrow>
                    (case insert_alunos user now gen_random_uuid (insert_payload validated user_id) s of
                       Inl error \<Rightarrow>
                         \<lparr>toasts = report_error msg_erro_criar (pg_message error),
                          requests = [Insert (insert_payload validated user_id)],
                          store = s, refreshed = False\<rparr>
                     | Inr s' \<Rightarrow>
                         \<lparr>toasts = [ToastSuccess msg_criado],
                          requests = [Insert (insert_payload validated user_id)],
                          store = s', refreshed = True\<rparr>))))"

subsection \<open>The dashboard\<close>

text \<open>
  \<^verbatim>\<open>fetchAlunos\<close>: \<^verbatim>\<open>select("*").order("created_at", {ascending: false})\<close>, the
  list the dashboard shows. Rows of equal \<^verbatim>\<open>created_at\<close> keep their table order here
  (the store promises no order among them).
\<close>

definition fetchAlunos :: "uuid option \<Rightarrow> db \<Rightarrow> aluno list" where
  "fetchAlunos uid s = sort_key (\<lambda>r. - a_created_at r) (select_alunos uid s)"

text \<open>
  \<^verbatim>\<open>handleDelete\<close>: returns at once when no row is chosen (\<^verbatim>\<open>!alunoToDelete\<close>, which
  holds for \<^verbatim>\<open>null\<close> and for the empty string); otherwise sends the delete, with
  whatever identity the session has, and reports what the store answers.
\<close>

definition handleDelete :: "uuid option \<Rightarrow> uuid option \<Rightarrow> db \<Rightarrow> outcome" where
  "handleDelete uid alunoToDelete s =
     (case alunoToDelete of
        None \<Rightarrow> \<lparr>toasts = [], requests = [], store = s, refreshed = False\<rparr>
      | Some target \<Rightarrow>
          if target = [] then \<lparr>toasts = [], requests = [], store = s, refreshed = False\<rparr>
          else
            (case delete_alunos uid target s of
               Inl error \<Rightarrow>
                 \<lparr>toasts = [ToastError msg_erro_excluir], requests = [Delete target], store = s,
                  refreshed = False\<rparr>
             | Inr s' \<Rightarrow>
                 \<lparr>toasts = [ToastSuccess msg_excluido], requests = [Delete target], store = s',
                  refreshed = True\<rparr>))"

section \<open>Example data\<close>

text \<open>
  Two teachers, each with one student, and the statements that lead to them from the
  empty database. \<open>contains_at\<close> is a stand-in for the library's address pattern
  wherever a concrete one is needed.
\<close>

definition user1 :: auth_user where
  "user1 = \<lparr>u_id = ''u1'', u_email = Some ''prof1@x.com'',
             u_raw_user_meta_data = [''nome'' \<mapsto> ''Prof Um'']\<rparr>"

definition user2 :: auth_user where
  "user2 = \<lparr>u_id = ''u2'', u_email = Some ''prof2@x.com'', u_raw_user_meta_data = Map.empty\<rparr>"

definition profile1 :: profile where
  "profile1 = \<lparr>p_id = ''u1'', p_nome = ''Prof Um'', p_email = ''prof1@x.com'',
                p_created_at = 1, p_updated_at = 1\<rparr>"

definition profile2 :: profile where
  "profile2 = \<lparr>p_id = ''u2'', p_nome = [], p_email = ''prof2@x.com'',
                p_created_at = 2, p_updated_at = 2\<rparr>"

definition ana :: aluno where
  "ana = \<lparr>a_id = ''a1'', a_nome = ''Ana Silva'', a_email = ''ana@x.com'', a_matricula = ''M001'',
          a_idade = 20, a_criado_por = ''u1'', a_created_at = 10, a_updated_at = 10\<rparr>"

definition bia :: aluno where
  "bia = \<lparr>a_id = ''a2'', a_nome = ''Bia Souza'', a_email = ''bia@x.com'', a_matricula = ''M002'',
          a_idade = 31, a_criado_por = ''u2'', a_created_at = 20, a_updated_at = 20\<rparr>"

definition example_db :: db where
  "example_db = \<lparr>users = [user1, user2], profiles = [profile1, profile2], alunos = [ana, bia]\<rparr>"

definition new_aluno :: "string \<Rightarrow> string \<Rightarrow> string \<Rightarrow> int \<Rightarrow> uuid \<Rightarrow> aluno_payload" where
  "new_aluno nome email matricula idade criado_por =
     \<lparr>pl_id = None, pl_nome = Some nome, pl_email = Some email, pl_matricula = Some matricula,
      pl_idade = Some idade, pl_criado_por = Some criado_por, pl_created_at = None,
      pl_updated_at = None\<rparr>"

definition no_change :: aluno_payload where
  "no_change =
     \<lparr>pl_id = None, pl_nome = None, pl_email = None, pl_matricula = None, pl_idade = None,
      pl_criado_por = None, pl_created_at = None, pl_updated_at = None\<rparr>"

definition example_history :: "statement list" where
  "example_history =
     [CreateIdentity 1 user1,
      CreateIdentity 2 user2,
      InsertAlunos (Some ''u1'') 10 ''a1'' (new_aluno ''Ana Silva'' ''ana@x.com'' ''M001'' 20 ''u1''),
      InsertAlunos (Some ''u2'') 20 ''a2'' (new_aluno ''Bia Souza'' ''bia@x.com'' ''M002'' 31 ''u2'')]"

definition contains_at :: "string \<Rightarrow> bool" where
  "contains_at v = (CHR ''@'' \<in> set v)"

definition carla_form :: "string \<Rightarrow> string \<Rightarrow> AlunoFormData" where
  "carla_form nome idade =
     \<lparr>fd_nome = nome, fd_email = ''carla@x.com'', fd_matricula = ''M003'', fd_idade = idade\<rparr>"

text \<open>
  Payloads of updates: one that carries a stale \<^verbatim>\<open>updated_at\<close>, one that sets
  \<^verbatim>\<open>created_at\<close>, and one for a profile.
\<close>

definition stale_stamp :: aluno_payload where
  "stale_stamp = no_change\<lparr>pl_idade := Some 21, pl_updated_at := Some 7\<rparr>"

definition backdate :: aluno_payload where
  "backdate = no_change\<lparr>pl_created_at := Some 99\<rparr>"

definition rename_profile :: profile_payload where
  "rename_profile =
     \<lparr>pp_id = None, pp_nome = Some ''Prof Primeiro'', pp_email = None, pp_created_at = None,
      pp_updated_at = Some 7\<rparr>"

text \<open>A third teacher signs up with no metadata; the database after it.\<close>

definition user3 :: auth_user where
  "user3 = \<lparr>u_id = ''u3'', u_email = Some ''prof3@x.com'', u_raw_user_meta_data = Map.empty\<rparr>"

definition profile3 :: profile where
  "profile3 = \<lparr>p_id = ''u3'', p_nome = [], p_email = ''prof3@x.com'',
                p_created_at = 3, p_updated_at = 3\<rparr>"

definition example_db3 :: db where
  "example_db3 = \<lparr>users = [user1, user2, user3], profiles = [profile1, profile2, profile3],
                   alunos = [ana, bia]\<rparr>"

section \<open>The validation rules as the specification words them\<close>

text \<open>
  The specification's rule of acceptance, read on the submitted fields as they are:
  name length in [2,100], email well-formed with length at most 255, registration code
  length in [3,50], age an integer in [1,150] (the age being the number the form makes
  of its text).
\<close>

definition spec_accepts :: "(string \<Rightarrow> bool) \<Rightarrow> AlunoFormData \<Rightarrow> bool" where
  "spec_accepts email_ok f =
     (2 \<le> length (fd_nome f) \<and> length (fd_nome f) \<le> 100
      \<and> email_ok (fd_email f) \<and> length (fd_email f) \<le> 255
      \<and> 3 \<le> length (fd_matricula f) \<and> length (fd_matricula f) \<le> 50
      \<and> (case parseInt (fd_idade f) of Finite a \<Rightarrow> 1 \<le> a \<and> a \<le> 150 | _ \<Rightarrow> False))"

text \<open>The same rule on the trimmed fields.\<close>

definition trimmed_accepts :: "(string \<Rightarrow> bool) \<Rightarrow> AlunoFormData \<Rightarrow> bool" where
  "trimmed_accepts email_ok f =
     (2 \<le> length (trim (fd_nome f)) \<and> length (trim (fd_nome f)) \<le> 100
      \<and> email_ok (trim (fd_email f)) \<and> length (trim (fd_email f)) \<le> 255
      \<and> 3 \<le> length (trim (fd_matricula f)) \<and> length (trim (fd_matricula f)) \<le> 50
      \<and> (case parseInt (fd_idade f) of Finite a \<Rightarrow> 1 \<le> a \<and> a \<le> 150 | _ \<Rightarrow> False))"

text \<open>
  The message of the first violated rule, the rules taken in the order of the fields
  (name, email, registration code, age) and, within a field, in the order the schema
  chains them; none when no rule is violated.
\<close>

definition first_violation :: "(string \<Rightarrow> bool) \<Rightarrow> AlunoFormData \<Rightarrow> string option" where
  "first_violation email_ok f =
     (let nome = trim (fd_nome f); email = trim (fd_email f); matricula = trim (fd_matricula f);
          idade = parseInt (fd_idade f)
      in if length nome < 2 then Some msg_nome_min
         else if length nome > 100 then Some msg_too_big_100
         else if \<not> email_ok email then Some msg_email_invalido
         else if length email > 255 then Some msg_too_big_255
         else if length matricula < 3 then Some msg_matricula_min
         else if length matricula > 50 then Some msg_too_big_50
         else if idade = NaN then Some msg_received_nan
         else if \<not> is_integer idade then Some msg_received_float
         else if js_less idade 1 then Some msg_idade_min
         else if js_greater idade 150 then Some msg_idade_max
         else None)"

text \<open>Whether the schema accepts the form's fields, as \<^verbatim>\<open>handleSubmit\<close> passes them.\<close>

definition schema_accepts :: "(string \<Rightarrow> bool) \<Rightarrow> AlunoFormData \<Rightarrow> bool" where
  "schema_accepts email_ok f =
     (case alunoSchema_parse email_ok (fd_nome f) (fd_email f) (fd_matricula f)
             (parseInt (fd_idade f)) of
        Inl _ \<Rightarrow> False
      | Inr _ \<Rightarrow> True)"

text \<open>The issues the schema collects for a form, in the order it collects them.\<close>

definition all_issues :: "(string \<Rightarrow> bool) \<Rightarrow> AlunoFormData \<Rightarrow> zod_issue list" where
  "all_issues email_ok f =
     nome_issues (fd_nome f) @ email_issues email_ok (fd_email f) @
     matricula_issues (fd_matricula f) @ idade_issues (parseInt (fd_idade f))"

text \<open>The errors an insert or an update of a student can end in.\<close>

definition alunos_errors :: "pg_error list" where
  "alunos_errors =
     [NumericValueOutOfRange, RlsViolation ''alunos'',
      NotNullViolation ''alunos'' ''nome'', NotNullViolation ''alunos'' ''email'',
      NotNullViolation ''alunos'' ''matricula'', NotNullViolation ''alunos'' ''idade'',
      CheckViolation ''alunos'' ''alunos_idade_check'',
      UniqueViolation ''alunos_pkey'', UniqueViolation ''alunos_email_key'',
      UniqueViolation ''alunos_matricula_key'',
      ForeignKeyViolation ''alunos'' ''alunos_criado_por_fkey'']"

text \<open>
  The message the specification asks for a store error: the conflict text of the field for
  a unique violation on the email or on the registration code, the generic text of the
  action for any other error.
\<close>

definition expected_toast :: "string \<Rightarrow> pg_error \<Rightarrow> toast" where
  "expected_toast generic err =
     (if err = UniqueViolation ''alunos_email_key'' then ToastError msg_email_cadastrado
      else if err = UniqueViolation ''alunos_matricula_key'' then ToastError msg_matricula_cadastrada
      else ToastError generic)"

text \<open>Two forms that repeat a stored value.\<close>

definition dup_email_form :: AlunoFormData where
  "dup_email_form =
     \<lparr>fd_nome = ''Ana Souza'', fd_email = ''ana@x.com'', fd_matricula = ''M003'', fd_idade = ''22''\<rparr>"

definition dup_matricula_form :: AlunoFormData where
  "dup_matricula_form =
     \<lparr>fd_nome = ''Bia Souza'', fd_email = ''bia@x.com'', fd_matricula = ''M001'', fd_idade = ''31''\<rparr>"

section \<open>Invariants of the store\<close>

text \<open>The three unique indexes of \<^verbatim>\<open>alunos\<close>: the key, the email and the matricula.\<close>

definition alunos_inv :: "db \<Rightarrow> bool" where
  "alunos_inv s = (distinct (map a_id (alunos s)) \<and> distinct (map a_email (alunos s))
                   \<and> distinct (map a_matricula (alunos s)))"

text \<open>The rows that the requester does not own: the ones no policy lets it touch.\<close>

definition foreign_rows :: "uuid option \<Rightarrow> db \<Rightarrow> aluno list" where
  "foreign_rows uid s = filter (\<lambda>r. \<not> alunos_policy uid (a_criado_por r)) (alunos s)"

text \<open>The key of \<^verbatim>\<open>profiles\<close>.\<close>

definition profiles_inv :: "db \<Rightarrow> bool" where
  "profiles_inv s = distinct (map p_id (profiles s))"

section \<open>Properties of the store\<close>

subsection \<open>Auxiliary facts\<close>

lemma extract_split:
  "List.extract P xs = Some (ys, y, zs) \<Longrightarrow> xs = ys @ y # zs \<and> P y \<and> (\<forall>x\<in>set ys. \<not> P x)"
  by (simp add: extract_Some_iff)

lemma extract_none: "List.extract P xs = None \<Longrightarrow> \<forall>x\<in>set xs. \<not> P x"
  by (simp add: extract_None_iff)

lemma distinct_map_replace:
  assumes "distinct (map f (before @ old # after))" and "f new \<notin> set (map f (before @ after))"
  shows "distinct (map f (before @ new # after))"
  using assms by auto

text \<open>What a successful insert and a successful update did.\<close>

lemma insert_alunos_Inr:
  assumes "insert_alunos uid now g p s = Inr s'"
  shows "\<exists>r. s' = s\<lparr>alunos := alunos s @ [r]\<rparr> \<and> a_id r \<notin> set (map a_id (alunos s))
          \<and> a_email r \<notin> set (map a_email (alunos s))
          \<and> a_matricula r \<notin> set (map a_matricula (alunos s))
          \<and> alunos_policy uid (a_criado_por r) \<and> alunos_idade_check (a_idade r)
          \<and> pl_criado_por p = Some (a_criado_por r) \<and> pl_email p = Some (a_email r)
          \<and> pl_matricula p = Some (a_matricula r) \<and> pl_idade p = Some (a_idade r)"
  using assms unfolding insert_alunos_def
  by (auto split: if_splits option.splits)

lemma update_alunos_Inr:
  assumes "update_alunos uid now target p s = Inr s'"
  shows "s' = s \<and> (\<forall>r\<in>set (alunos s). \<not> (a_id r = target \<and> alunos_policy uid (a_criado_por r)))
       \<or> (\<exists>before old after new. alunos s = before @ old # after \<and> s' = s\<lparr>alunos := before @ new # after\<rparr>
            \<and> new = (aluno_set p old)\<lparr>a_updated_at := now\<rparr>
            \<and> a_id old = target \<and> alunos_policy uid (a_criado_por old)
            \<and> (\<forall>r\<in>set before. \<not> (a_id r = target \<and> alunos_policy uid (a_criado_por r)))
            \<and> alunos_policy uid (a_criado_por new) \<and> alunos_idade_check (a_idade new)
            \<and> a_id new \<notin> set (map a_id (before @ after))
            \<and> a_email new \<notin> set (map a_email (before @ after))
            \<and> a_matricula new \<notin> set (map a_matricula (before @ after)))"
proof (cases "List.extract (\<lambda>r. a_id r = target \<and> alunos_policy uid (a_criado_por r)) (alunos s)")
  case None
  with assms have "s' = s"
    by (auto simp: update_alunos_def split: if_splits)
  with None show ?thesis
    by (auto dest: extract_none)
next
  case (Some t)
  obtain before old after where t: "t = (before, old, after)"
    by (cases t)
  from Some t have sp: "alunos s = before @ old # after" "a_id old = target"
    "alunos_policy uid (a_criado_por old)"
    "\<forall>r\<in>set before. \<not> (a_id r = target \<and> alunos_policy uid (a_criado_por r))"
    by (auto dest: extract_split)
  from assms Some t show ?thesis
    apply (intro disjI2)
    apply (rule exI [of _ before], rule exI [of _ old], rule exI [of _ after])
    using sp
    by (auto simp: update_alunos_def Let_def update_updated_at_column_aluno_def split: if_splits)
qed

text \<open>Each statement keeps the three indexes unique.\<close>

lemma insert_alunos_inv:
  "alunos_inv s \<Longrightarrow> insert_alunos uid now g p s = Inr s' \<Longrightarrow> alunos_inv s'"
  by (drule insert_alunos_Inr) (auto simp: alunos_inv_def)

lemma update_alunos_inv:
  assumes "alunos_inv s" and "update_alunos uid now target p s = Inr s'"
  shows "alunos_inv s'"
proof -
  from update_alunos_Inr [OF assms(2)] show ?thesis
  proof (elim disjE exE conjE)
    assume "s' = s"
    with assms(1) show ?thesis by simp
  next
    fix before old after new
    assume a: "alunos s = before @ old # after" "s' = s\<lparr>alunos := before @ new # after\<rparr>"
      "a_id new \<notin> set (map a_id (before @ after))"
      "a_email new \<notin> set (map a_email (before @ after))"
      "a_matricula new \<notin> set (map a_matricula (before @ after))"
    from assms(1) a(1) have d: "distinct (map a_id (before @ old # after))"
      "distinct (map a_email (before @ old # after))"
      "distinct (map a_matricula (before @ old # after))"
      by (simp_all add: alunos_inv_def)
    have "distinct (map a_id (before @ new # after))"
      using d(1) a(3) by (rule distinct_map_replace)
    moreover have "distinct (map a_email (before @ new # after))"
      using d(2) a(4) by (rule distinct_map_replace)
    moreover have "distinct (map a_matricula (before @ new # after))"
      using d(3) a(5) by (rule distinct_map_replace)
    ultimately show ?thesis
      using a(2) by (simp add: alunos_inv_def)
  qed
qed

lemma delete_alunos_inv:
  "alunos_inv s \<Longrightarrow> delete_alunos uid target s = Inr s' \<Longrightarrow> alunos_inv s'"
  by (auto simp: delete_alunos_def alunos_inv_def distinct_map_filter)

lemma delete_identity_inv: "alunos_inv s \<Longrightarrow> alunos_inv (delete_identity uid s)"
  by (simp add: delete_identity_def alunos_inv_def distinct_map_filter)

lemma handle_new_user_alunos: "handle_new_user now new s = Inr s' \<Longrightarrow> alunos s' = alunos s"
  by (auto simp: handle_new_user_def split: option.splits if_splits)

lemma create_identity_alunos: "create_identity now new s = Inr s' \<Longrightarrow> alunos s' = alunos s"
  by (auto simp: create_identity_def split: if_splits dest: handle_new_user_alunos)

lemma insert_profiles_alunos: "insert_profiles uid now p s = Inr s' \<Longrightarrow> alunos s' = alunos s"
  by (auto simp: insert_profiles_def split: option.splits if_splits)

lemma update_profiles_alunos: "update_profiles uid now target p s = Inr s' \<Longrightarrow> alunos s' = alunos s"
  by (auto simp: update_profiles_def Let_def split: option.splits if_splits)

lemma execute_inv: "alunos_inv s \<Longrightarrow> execute st s = Inr s' \<Longrightarrow> alunos_inv s'"
proof (cases st)
  case (CreateIdentity now new)
  then show "alunos_inv s \<Longrightarrow> execute st s = Inr s' \<Longrightarrow> alunos_inv s'"
    by (auto simp: alunos_inv_def dest: create_identity_alunos)
next
  case (DeleteIdentity uid)
  then show "alunos_inv s \<Longrightarrow> execute st s = Inr s' \<Longrightarrow> alunos_inv s'"
    by (auto intro: delete_identity_inv)
next
  case (InsertAlunos uid now g p)
  then show "alunos_inv s \<Longrightarrow> execute st s = Inr s' \<Longrightarrow> alunos_inv s'"
    by (auto intro: insert_alunos_inv)
next
  case (UpdateAlunos uid now target p)
  then show "alunos_inv s \<Longrightarrow> execute st s = Inr s' \<Longrightarrow> alunos_inv s'"
    by (auto intro: update_alunos_inv)
next
  case (DeleteAlunos uid target)
  then show "alunos_inv s \<Longrightarrow> execute st s = Inr s' \<Longrightarrow> alunos_inv s'"
    by (auto intro: delete_alunos_inv)
next
  case (InsertProfiles uid now p)
  then show "alunos_inv s \<Longrightarrow> execute st s = Inr s' \<Longrightarrow> alunos_inv s'"
    by (auto simp: alunos_inv_def dest: insert_profiles_alunos)
next
  case (UpdateProfiles uid now target p)
  then show "alunos_inv s \<Longrightarrow> execute st s = Inr s' \<Longrightarrow> alunos_inv s'"
    by (auto simp: alunos_inv_def dest: update_profiles_alunos)
qed

lemma state_after_inv: "alunos_inv s \<Longrightarrow> alunos_inv (state_after (execute st s) s)"
  by (cases "execute st s") (auto simp: state_after_def intro: execute_inv)

lemma run_inv: "alunos_inv s \<Longrightarrow> alunos_inv (run sts s)"
  by (induction sts arbitrary: s) (auto intro: state_after_inv)

lemma empty_db_inv: "alunos_inv empty_db"
  by (simp add: alunos_inv_def empty_db_def)

lemma reachable_inv: "alunos_inv (run sts empty_db)"
  by (rule run_inv [OF empty_db_inv])

text \<open>A write that would repeat an email or a matricula of another row ends in an error.\<close>

lemma insert_alunos_duplicate:
  assumes "(pl_email p = Some e \<and> e \<in> set (map a_email (alunos s)))
           \<or> (pl_matricula p = Some m \<and> m \<in> set (map a_matricula (alunos s)))"
  shows "\<exists>err. insert_alunos uid now g p s = Inl err"
proof (cases "insert_alunos uid now g p s")
  case (Inl err)
  then show ?thesis by blast
next
  case (Inr s')
  from insert_alunos_Inr [OF Inr] assms show ?thesis
    by (force simp: image_iff)
qed

lemma update_alunos_duplicate:
  assumes inv: "distinct (map a_id (alunos s))"
    and old: "old \<in> set (alunos s)" "a_id old = target" "alunos_policy uid (a_criado_por old)"
    and other: "other \<in> set (alunos s)" "other \<noteq> old"
    and dup: "pl_email p = Some (a_email other) \<or> pl_matricula p = Some (a_matricula other)"
  shows "\<exists>err. update_alunos uid now target p s = Inl err"
proof (cases "update_alunos uid now target p s")
  case (Inl err)
  then show ?thesis by blast
next
  case (Inr s')
  from update_alunos_Inr [OF Inr] show ?thesis
  proof (elim disjE exE conjE)
    assume "\<forall>r\<in>set (alunos s). \<not> (a_id r = target \<and> alunos_policy uid (a_criado_por r))"
    with old show ?thesis by blast
  next
    fix before old' after new
    assume a: "alunos s = before @ old' # after" "new = (aluno_set p old')\<lparr>a_updated_at := now\<rparr>"
      "a_id old' = target"
      "a_email new \<notin> set (map a_email (before @ after))"
      "a_matricula new \<notin> set (map a_matricula (before @ after))"
    from inv a(1) a(3) old have "old' = old"
      by (auto simp: image_iff)
    with other a(1) have mem: "other \<in> set (before @ after)"
      by auto
    from a(2) have "a_email new = coalesce (pl_email p) (a_email old')"
      "a_matricula new = coalesce (pl_matricula p) (a_matricula old')"
      by (simp_all add: aluno_set_def)
    with dup a(4) a(5) mem show ?thesis
      by (auto simp: coalesce_def image_iff)
  qed
qed

text \<open>The example database is what the example statements lead to.\<close>

lemma example_db_reachable: "run example_history empty_db = example_db"
  by (simp add: example_history_def empty_db_def example_db_def state_after_def create_identity_def
      handle_new_user_def insert_alunos_def new_aluno_def user1_def user2_def profile1_def
      profile2_def ana_def bia_def coalesce_def alunos_policy_def alunos_idade_check_def
      in_integer_range_def)

lemma set_fetchAlunos:
  "set (fetchAlunos uid s) = {r \<in> set (alunos s). uid = Some (a_criado_por r)}"
  by (auto simp: fetchAlunos_def select_alunos_def alunos_policy_def)

lemma example_fetch: "fetchAlunos (Some ''u1'') example_db = [ana]"
  by (simp add: fetchAlunos_def select_alunos_def alunos_policy_def example_db_def ana_def bia_def)

subsection \<open>Reading the list\<close>

text \<open>
  Claim C1. For owners \<open>a\<close> and \<open>b\<close> that differ, every row that \<^verbatim>\<open>fetchAlunos\<close>
  returns under the identity \<open>a\<close> is a row of the table whose owner is \<open>a\<close>, and so
  none of the rows of \<open>b\<close>.
\<close>

theorem fetchAlunos_only_own_rows:
  "a \<noteq> b \<longrightarrow>
   (\<forall>r\<in>set (fetchAlunos (Some a) s).
      r \<in> set (alunos s) \<and> a_criado_por r = a \<and> a_criado_por r \<noteq> b)"
  by (auto simp: set_fetchAlunos)

theorem fetchAlunos_only_own_rows_witness:
  "''u1'' \<noteq> ''u2'' \<and> fetchAlunos (Some ''u1'') example_db = [ana]
   \<and> ana \<in> set (alunos example_db) \<and> a_criado_por ana = ''u1'' \<and> a_criado_por ana \<noteq> ''u2''"
proof -
  have h: "''u1'' \<noteq> ''u2''" by simp
  have f: "fetchAlunos (Some ''u1'') example_db = [ana]" by (rule example_fetch)
  from fetchAlunos_only_own_rows [of "''u1''" "''u2''" example_db] h
  have "\<forall>r\<in>set (fetchAlunos (Some ''u1'') example_db).
          r \<in> set (alunos example_db) \<and> a_criado_por r = ''u1'' \<and> a_criado_por r \<noteq> ''u2''"
    by blast
  with f h show ?thesis by simp
qed

subsection \<open>Unique email and matricula\<close>

text \<open>
  Claim C4. In every state the store can reach, the emails of the student rows are
  pairwise different and so are their registration codes; there, an insert that carries
  the email or the registration code of a stored row, and an update of one's own row
  to the email or the registration code of another row, end in an error, after which the
  state is the one before the attempt.
\<close>

theorem alunos_email_matricula_unique:
  "distinct (map a_email (alunos (run sts empty_db)))
   \<and> distinct (map a_matricula (alunos (run sts empty_db)))
   \<and> ((pl_email p = Some e \<and> e \<in> set (map a_email (alunos (run sts empty_db)))
        \<or> pl_matricula p = Some m \<and> m \<in> set (map a_matricula (alunos (run sts empty_db))))
       \<longrightarrow> (\<exists>err. insert_alunos uid now g p (run sts empty_db) = Inl err)
           \<and> state_after (insert_alunos uid now g p (run sts empty_db)) (run sts empty_db)
               = run sts empty_db)
   \<and> (old \<in> set (alunos (run sts empty_db)) \<and> a_id old = target
        \<and> alunos_policy uid (a_criado_por old)
        \<and> other \<in> set (alunos (run sts empty_db)) \<and> other \<noteq> old
        \<and> (pl_email q = Some (a_email other) \<or> pl_matricula q = Some (a_matricula other))
       \<longrightarrow> (\<exists>err. update_alunos uid now target q (run sts empty_db) = Inl err)
           \<and> state_after (update_alunos uid now target q (run sts empty_db)) (run sts empty_db)
               = run sts empty_db)"
proof (intro conjI impI)
  show "distinct (map a_email (alunos (run sts empty_db)))"
    using reachable_inv [of sts] by (simp add: alunos_inv_def)
  show "distinct (map a_matricula (alunos (run sts empty_db)))"
    using reachable_inv [of sts] by (simp add: alunos_inv_def)
next
  assume "pl_email p = Some e \<and> e \<in> set (map a_email (alunos (run sts empty_db)))
        \<or> pl_matricula p = Some m \<and> m \<in> set (map a_matricula (alunos (run sts empty_db)))"
  then have f: "\<exists>err. insert_alunos uid now g p (run sts empty_db) = Inl err"
    by (rule insert_alunos_duplicate)
  then show "\<exists>err. insert_alunos uid now g p (run sts empty_db) = Inl err" .
  from f show "state_after (insert_alunos uid now g p (run sts empty_db)) (run sts empty_db)
               = run sts empty_db"
    by (auto simp: state_after_def)
next
  assume a: "old \<in> set (alunos (run sts empty_db)) \<and> a_id old = target
        \<and> alunos_policy uid (a_criado_por old)
        \<and> other \<in> set (alunos (run sts empty_db)) \<and> other \<noteq> old
        \<and> (pl_email q = Some (a_email other) \<or> pl_matricula q = Some (a_matricula other))"
  have "distinct (map a_id (alunos (run sts empty_db)))"
    using reachable_inv [of sts] by (simp add: alunos_inv_def)
  with a have f: "\<exists>err. update_alunos uid now target q (run sts empty_db) = Inl err"
    by (intro update_alunos_duplicate [of _ old target uid other]) simp_all
  then show "\<exists>err. update_alunos uid now target q (run sts empty_db) = Inl err" .
  from f show "state_after (update_alunos uid now target q (run sts empty_db)) (run sts empty_db)
               = run sts empty_db"
    by (auto simp: state_after_def)
qed

theorem alunos_email_matricula_unique_witness:
  "run example_history empty_db = example_db
   \<and> distinct (map a_email (alunos example_db))
   \<and> distinct (map a_matricula (alunos example_db))
   \<and> (\<exists>err. insert_alunos (Some ''u2'') 30 ''a3''
               (new_aluno ''Ana Souza'' ''ana@x.com'' ''M003'' 22 ''u2'') example_db = Inl err)
   \<and> (\<exists>err. update_alunos (Some ''u2'') 30 ''a2'' (no_change\<lparr>pl_matricula := Some ''M001''\<rparr>)
               example_db = Inl err)"
proof -
  let ?p = "new_aluno ''Ana Souza'' ''ana@x.com'' ''M003'' 22 ''u2''"
  let ?q = "no_change\<lparr>pl_matricula := Some ''M001''\<rparr>"
  note t = alunos_email_matricula_unique [of example_history ?p "''ana@x.com''" "''M003''"
      "Some ''u2''" 30 "''a3''" bia "''a2''" ana ?q, unfolded example_db_reachable]
  have h1: "pl_email ?p = Some ''ana@x.com'' \<and> ''ana@x.com'' \<in> set (map a_email (alunos example_db))"
    by (simp add: new_aluno_def example_db_def ana_def)
  have h2: "bia \<in> set (alunos example_db) \<and> a_id bia = ''a2''
        \<and> alunos_policy (Some ''u2'') (a_criado_por bia)
        \<and> ana \<in> set (alunos example_db) \<and> ana \<noteq> bia
        \<and> (pl_email ?q = Some (a_email ana) \<or> pl_matricula ?q = Some (a_matricula ana))"
    by (simp add: example_db_def ana_def bia_def alunos_policy_def no_change_def)
  from t h1 h2 example_db_reachable show ?thesis
    by blast
qed

subsection \<open>Writes under another identity\<close>

lemma insert_alunos_foreign:
  assumes "uid = None \<or> pl_criado_por p \<noteq> uid"
  shows "\<exists>err. insert_alunos uid now g p s = Inl err"
proof (cases "insert_alunos uid now g p s")
  case (Inl err)
  then show ?thesis by blast
next
  case (Inr s')
  from insert_alunos_Inr [OF Inr] assms show ?thesis
    by (auto simp: alunos_policy_def)
qed

lemma update_alunos_invisible:
  assumes "\<forall>r\<in>set (alunos s). a_id r = target \<longrightarrow> \<not> alunos_policy uid (a_criado_por r)"
  shows "update_alunos uid now target p s = Inr s"
proof -
  from assms
  have "List.extract (\<lambda>r. a_id r = target \<and> alunos_policy uid (a_criado_por r)) (alunos s) = None"
    by (auto simp: extract_None_iff)
  then show ?thesis
    by (simp add: update_alunos_def)
qed

lemma delete_alunos_invisible:
  assumes "\<forall>r\<in>set (alunos s). a_id r = target \<longrightarrow> \<not> alunos_policy uid (a_criado_por r)"
  shows "delete_alunos uid target s = Inr s"
proof -
  from assms
  have "filter (\<lambda>r. \<not> (a_id r = target \<and> alunos_policy uid (a_criado_por r))) (alunos s) = alunos s"
    by (intro filter_True) blast
  then show ?thesis
    by (simp add: delete_alunos_def)
qed

lemma update_alunos_new_owner:
  assumes "\<exists>r\<in>set (alunos s). a_id r = target \<and> alunos_policy uid (a_criado_por r)"
    and "pl_criado_por p = Some c" and "uid \<noteq> Some c"
  shows "\<exists>err. update_alunos uid now target p s = Inl err"
proof (cases "update_alunos uid now target p s")
  case (Inl err)
  then show ?thesis by blast
next
  case (Inr s')
  from update_alunos_Inr [OF Inr] assms show ?thesis
    by (auto simp: alunos_policy_def aluno_set_def coalesce_def)
qed

lemma insert_alunos_frame:
  "foreign_rows uid (state_after (insert_alunos uid now g p s) s) = foreign_rows uid s"
proof (cases "insert_alunos uid now g p s")
  case (Inl err)
  then show ?thesis by (simp add: state_after_def)
next
  case (Inr s')
  from insert_alunos_Inr [OF Inr] Inr show ?thesis
    by (auto simp: state_after_def foreign_rows_def)
qed

lemma update_alunos_frame:
  "foreign_rows uid (state_after (update_alunos uid now target p s) s) = foreign_rows uid s"
proof (cases "update_alunos uid now target p s")
  case (Inl err)
  then show ?thesis by (simp add: state_after_def)
next
  case (Inr s')
  from update_alunos_Inr [OF Inr] have "foreign_rows uid s' = foreign_rows uid s"
    by (auto simp: foreign_rows_def)
  with Inr show ?thesis by (simp add: state_after_def)
qed

lemma delete_alunos_frame:
  "foreign_rows uid (state_after (delete_alunos uid target s) s) = foreign_rows uid s"
  by (auto simp: delete_alunos_def state_after_def foreign_rows_def intro: filter_cong)

text \<open>
  Claim C2, as stated, fails: an update or a delete aimed at the row of another owner is
  not rejected. The policy's \<^verbatim>\<open>USING\<close> hides the row from the statement, which then
  touches no row and ends without error; the dashboard reports the student of another
  owner as deleted. (The row itself stays as it was.)
\<close>

theorem foreign_update_delete_not_rejected:
  "bia \<in> set (alunos example_db) \<and> a_id bia = ''a2'' \<and> a_criado_por bia = ''u2''
   \<and> update_alunos (Some ''u1'') 30 ''a2'' (no_change\<lparr>pl_nome := Some ''Outro Nome''\<rparr>) example_db
       = Inr example_db
   \<and> delete_alunos (Some ''u1'') ''a2'' example_db = Inr example_db
   \<and> handleDelete (Some ''u1'') (Some ''a2'') example_db
       = \<lparr>toasts = [ToastSuccess msg_excluido], requests = [Delete ''a2''], store = example_db,
          refreshed = True\<rparr>"
proof -
  have h: "\<forall>r\<in>set (alunos example_db).
              a_id r = ''a2'' \<longrightarrow> \<not> alunos_policy (Some ''u1'') (a_criado_por r)"
    by (simp add: example_db_def ana_def bia_def alunos_policy_def)
  have d: "delete_alunos (Some ''u1'') ''a2'' example_db = Inr example_db"
    using h by (rule delete_alunos_invisible)
  have u: "update_alunos (Some ''u1'') 30 ''a2'' (no_change\<lparr>pl_nome := Some ''Outro Nome''\<rparr>) example_db
       = Inr example_db"
    using h by (rule update_alunos_invisible)
  have b: "bia \<in> set (alunos example_db) \<and> a_id bia = ''a2'' \<and> a_criado_por bia = ''u2''"
    by (simp add: example_db_def bia_def)
  from d have "handleDelete (Some ''u1'') (Some ''a2'') example_db
       = \<lparr>toasts = [ToastSuccess msg_excluido], requests = [Delete ''a2''], store = example_db,
          refreshed = True\<rparr>"
    by (simp add: handleDelete_def)
  with b u d show ?thesis
    by blast
qed

text \<open>
  Claim C2, amended. An insert that declares an owner other than the requester (or comes
  with no identity) ends in an error, and so does an update of one's own row that declares
  another owner. An update or a delete aimed at a row that the requester does not own is
  answered without error and changes nothing: the state after it is the state before it.
  Whatever the statement and its outcome, the rows that the requester does not own are
  after it exactly what they were before, none created, changed or removed.
\<close>

theorem foreign_write_outcome:
  "((uid = None \<or> pl_criado_por p \<noteq> uid) \<longrightarrow> (\<exists>err. insert_alunos uid now g p s = Inl err))
   \<and> ((\<exists>r\<in>set (alunos s). a_id r = target \<and> alunos_policy uid (a_criado_por r))
        \<and> pl_criado_por p = Some c \<and> uid \<noteq> Some c \<longrightarrow>
        (\<exists>err. update_alunos uid now target p s = Inl err))
   \<and> ((\<forall>r\<in>set (alunos s). a_id r = target \<longrightarrow> \<not> alunos_policy uid (a_criado_por r)) \<longrightarrow>
        update_alunos uid now target p s = Inr s \<and> delete_alunos uid target s = Inr s)
   \<and> foreign_rows uid (state_after (insert_alunos uid now g p s) s) = foreign_rows uid s
   \<and> foreign_rows uid (state_after (update_alunos uid now target p s) s) = foreign_rows uid s
   \<and> foreign_rows uid (state_after (delete_alunos uid target s) s) = foreign_rows uid s"
  using insert_alunos_foreign [of uid p now g s] update_alunos_invisible [of s target uid now p]
    delete_alunos_invisible [of s target uid] update_alunos_new_owner [of s target uid p c now]
    insert_alunos_frame [of uid now g p s] update_alunos_frame [of uid now target p s]
    delete_alunos_frame [of uid target s]
  by blast

theorem foreign_write_outcome_witness:
  "(\<exists>err. insert_alunos (Some ''u1'') 30 ''a3''
             (new_aluno ''Caio Lima'' ''caio@x.com'' ''M003'' 19 ''u2'') example_db = Inl err)
   \<and> (\<exists>err. update_alunos (Some ''u1'') 30 ''a1''
             (new_aluno ''Caio Lima'' ''caio@x.com'' ''M003'' 19 ''u2'') example_db = Inl err)
   \<and> update_alunos (Some ''u1'') 30 ''a2''
        (new_aluno ''Caio Lima'' ''caio@x.com'' ''M003'' 19 ''u2'') example_db = Inr example_db
   \<and> delete_alunos (Some ''u1'') ''a2'' example_db = Inr example_db
   \<and> foreign_rows (Some ''u1'') example_db = [bia]"
proof -
  let ?p = "new_aluno ''Caio Lima'' ''caio@x.com'' ''M003'' 19 ''u2''"
  note t1 = foreign_write_outcome [of "Some ''u1''" ?p 30 "''a3''" example_db "''a1''" "''u2''"]
  note t2 = foreign_write_outcome [of "Some ''u1''" ?p 30 "''a3''" example_db "''a2''" "''u2''"]
  have h1: "Some ''u1'' = None \<or> pl_criado_por ?p \<noteq> Some ''u1''"
    by (simp add: new_aluno_def)
  have h2: "(\<exists>r\<in>set (alunos example_db). a_id r = ''a1'' \<and> alunos_policy (Some ''u1'') (a_criado_por r))
        \<and> pl_criado_por ?p = Some ''u2'' \<and> Some ''u1'' \<noteq> Some ''u2''"
    by (simp add: example_db_def ana_def bia_def alunos_policy_def new_aluno_def)
  have h3: "\<forall>r\<in>set (alunos example_db).
              a_id r = ''a2'' \<longrightarrow> \<not> alunos_policy (Some ''u1'') (a_criado_por r)"
    by (simp add: example_db_def ana_def bia_def alunos_policy_def)
  have f: "foreign_rows (Some ''u1'') example_db = [bia]"
    by (simp add: foreign_rows_def example_db_def ana_def bia_def alunos_policy_def)
  from t1 h1 h2 have a: "(\<exists>err. insert_alunos (Some ''u1'') 30 ''a3'' ?p example_db = Inl err)
      \<and> (\<exists>err. update_alunos (Some ''u1'') 30 ''a1'' ?p example_db = Inl err)"
    by blast
  from t2 h3 have b: "update_alunos (Some ''u1'') 30 ''a2'' ?p example_db = Inr example_db
      \<and> delete_alunos (Some ''u1'') ''a2'' example_db = Inr example_db"
    by blast
  from a b f show ?thesis
    by blast
qed

subsection \<open>Timestamps\<close>

lemma update_profiles_Inr:
  assumes "update_profiles uid now target p s = Inr s'"
  shows "s' = s \<and> (\<forall>r\<in>set (profiles s). \<not> (p_id r = target \<and> profiles_policy uid (p_id r)))
       \<or> (\<exists>before old after new. profiles s = before @ old # after
            \<and> s' = s\<lparr>profiles := before @ new # after\<rparr>
            \<and> new = (profile_set p old)\<lparr>p_updated_at := now\<rparr>
            \<and> p_id old = target \<and> profiles_policy uid (p_id old))"
proof (cases "List.extract (\<lambda>r. p_id r = target \<and> profiles_policy uid (p_id r)) (profiles s)")
  case None
  with assms have "s' = s"
    by (auto simp: update_profiles_def split: if_splits)
  with None show ?thesis
    by (auto dest: extract_none)
next
  case (Some t)
  obtain before old after where t: "t = (before, old, after)"
    by (cases t)
  from Some t have sp: "profiles s = before @ old # after" "p_id old = target"
    "profiles_policy uid (p_id old)"
    by (auto dest: extract_split)
  from assms Some t show ?thesis
    apply (intro disjI2)
    apply (rule exI [of _ before], rule exI [of _ old], rule exI [of _ after])
    using sp
    by (auto simp: update_profiles_def Let_def update_updated_at_column_profile_def split: if_splits)
qed

lemma distinct_map_nth_position:
  assumes "distinct (map f (before @ old # after))" and "i < length (before @ old # after)"
    and "f ((before @ old # after) ! i) = f old"
  shows "i = length before"
proof -
  let ?xs = "map f (before @ old # after)"
  have "?xs ! i = f ((before @ old # after) ! i)"
    using assms(2) by (rule nth_map)
  moreover have "?xs ! length before = f old"
    by (simp add: nth_append)
  ultimately have "?xs ! i = ?xs ! length before"
    using assms(3) by simp
  moreover have "length before < length ?xs" by simp
  moreover have "i < length ?xs" using assms(2) by simp
  ultimately show ?thesis
    using assms(1) nth_eq_iff_index_eq by blast
qed

lemma update_alunos_row:
  assumes d: "distinct (map a_id (alunos s))"
    and u: "update_alunos uid now target p s = Inr s'"
    and i: "i < length (alunos s)" "a_id (alunos s ! i) = target"
      "alunos_policy uid (a_criado_por (alunos s ! i))"
  shows "length (alunos s') = length (alunos s) \<and> a_updated_at (alunos s' ! i) = now
         \<and> a_created_at (alunos s' ! i) = coalesce (pl_created_at p) (a_created_at (alunos s ! i))"
proof -
  from update_alunos_Inr [OF u] show ?thesis
  proof (elim disjE exE conjE)
    assume "\<forall>r\<in>set (alunos s). \<not> (a_id r = target \<and> alunos_policy uid (a_criado_por r))"
    with i show ?thesis
      using nth_mem by blast
  next
    fix before old after new
    assume a: "alunos s = before @ old # after" "s' = s\<lparr>alunos := before @ new # after\<rparr>"
      "new = (aluno_set p old)\<lparr>a_updated_at := now\<rparr>" "a_id old = target"
    from d i a(1) a(4) have pos: "i = length before"
      by (intro distinct_map_nth_position [of a_id before old after i]) simp_all
    with a(1) have "alunos s ! i = old" by simp
    with a(1,2,3) pos show ?thesis
      by (simp add: aluno_set_def)
  qed
qed

lemma update_profiles_row:
  assumes d: "distinct (map p_id (profiles s))"
    and u: "update_profiles uid now target p s = Inr s'"
    and i: "i < length (profiles s)" "p_id (profiles s ! i) = target"
      "profiles_policy uid (p_id (profiles s ! i))"
  shows "length (profiles s') = length (profiles s) \<and> p_updated_at (profiles s' ! i) = now
         \<and> p_created_at (profiles s' ! i) = coalesce (pp_created_at p) (p_created_at (profiles s ! i))"
proof -
  from update_profiles_Inr [OF u] show ?thesis
  proof (elim disjE exE conjE)
    assume "\<forall>r\<in>set (profiles s). \<not> (p_id r = target \<and> profiles_policy uid (p_id r))"
    with i show ?thesis
      using nth_mem by blast
  next
    fix before old after new
    assume a: "profiles s = before @ old # after" "s' = s\<lparr>profiles := before @ new # after\<rparr>"
      "new = (profile_set p old)\<lparr>p_updated_at := now\<rparr>" "p_id old = target"
    from d i a(1) a(4) have pos: "i = length before"
      by (intro distinct_map_nth_position [of p_id before old after i]) simp_all
    with a(1) have "profiles s ! i = old" by simp
    with a(1,2,3) pos show ?thesis
      by (simp add: profile_set_def)
  qed
qed

lemma example_stale_stamp:
  "update_alunos (Some ''u1'') 50 ''a1'' stale_stamp example_db
    = Inr (example_db\<lparr>alunos := [ana\<lparr>a_idade := 21, a_updated_at := 50\<rparr>, bia]\<rparr>)"
  by (simp add: update_alunos_def extract_def stale_stamp_def no_change_def example_db_def ana_def
      bia_def alunos_policy_def aluno_set_def coalesce_def update_updated_at_column_aluno_def
      alunos_idade_check_def in_integer_range_def profile1_def profile2_def)

lemma example_rename_profile:
  "update_profiles (Some ''u1'') 50 ''u1'' rename_profile example_db
    = Inr (example_db\<lparr>profiles := [profile1\<lparr>p_nome := ''Prof Primeiro'', p_updated_at := 50\<rparr>,
                                     profile2]\<rparr>)"
  by (simp add: update_profiles_def extract_def rename_profile_def example_db_def
      profiles_policy_def profile_set_def coalesce_def update_updated_at_column_profile_def
      profile1_def profile2_def user1_def user2_def)

text \<open>
  The key of \<^verbatim>\<open>profiles\<close> is unique in every state the store can reach (and the key of
  \<^verbatim>\<open>alunos\<close> is by \<open>reachable_inv\<close>).
\<close>

lemma insert_profiles_inv:
  "profiles_inv s \<Longrightarrow> insert_profiles uid now p s = Inr s' \<Longrightarrow> profiles_inv s'"
  by (auto simp: insert_profiles_def profiles_inv_def split: option.splits if_splits)

lemma update_profiles_inv:
  assumes "profiles_inv s" and "update_profiles uid now target p s = Inr s'"
  shows "profiles_inv s'"
proof (cases "List.extract (\<lambda>r. p_id r = target \<and> profiles_policy uid (p_id r)) (profiles s)")
  case None
  with assms show ?thesis
    by (auto simp: update_profiles_def)
next
  case (Some t)
  obtain before old after where t: "t = (before, old, after)"
    by (cases t)
  from Some t have sp: "profiles s = before @ old # after"
    by (auto dest: extract_split)
  let ?new = "update_updated_at_column_profile now (profile_set p old)"
  from assms(2) Some t have n: "p_id ?new \<notin> set (map p_id (before @ after))"
    and s': "s' = s\<lparr>profiles := before @ ?new # after\<rparr>"
    by (auto simp: update_profiles_def Let_def split: if_splits)
  from assms(1) sp have "distinct (map p_id (before @ old # after))"
    by (simp add: profiles_inv_def)
  then have "distinct (map p_id (before @ ?new # after))"
    using n by (rule distinct_map_replace)
  with s' show ?thesis
    by (simp add: profiles_inv_def)
qed

lemma create_identity_profiles_inv:
  "profiles_inv s \<Longrightarrow> create_identity now u s = Inr s' \<Longrightarrow> profiles_inv s'"
  by (auto simp: create_identity_def handle_new_user_def profiles_inv_def
      split: if_splits option.splits)

lemma execute_profiles_inv: "profiles_inv s \<Longrightarrow> execute st s = Inr s' \<Longrightarrow> profiles_inv s'"
proof (cases st)
  case (CreateIdentity now new)
  then show "profiles_inv s \<Longrightarrow> execute st s = Inr s' \<Longrightarrow> profiles_inv s'"
    by (auto intro: create_identity_profiles_inv)
next
  case (DeleteIdentity uid)
  then show "profiles_inv s \<Longrightarrow> execute st s = Inr s' \<Longrightarrow> profiles_inv s'"
    by (auto simp: delete_identity_def profiles_inv_def distinct_map_filter)
next
  case (InsertAlunos uid now g p)
  then show "profiles_inv s \<Longrightarrow> execute st s = Inr s' \<Longrightarrow> profiles_inv s'"
    by (auto simp: profiles_inv_def dest!: insert_alunos_Inr)
next
  case (UpdateAlunos uid now target p)
  then show "profiles_inv s \<Longrightarrow> execute st s = Inr s' \<Longrightarrow> profiles_inv s'"
    by (auto simp: profiles_inv_def dest!: update_alunos_Inr)
next
  case (DeleteAlunos uid target)
  then show "profiles_inv s \<Longrightarrow> execute st s = Inr s' \<Longrightarrow> profiles_inv s'"
    by (auto simp: profiles_inv_def delete_alunos_def)
next
  case (InsertProfiles uid now p)
  then show "profiles_inv s \<Longrightarrow> execute st s = Inr s' \<Longrightarrow> profiles_inv s'"
    by (auto intro: insert_profiles_inv)
next
  case (UpdateProfiles uid now target p)
  then show "profiles_inv s \<Longrightarrow> execute st s = Inr s' \<Longrightarrow> profiles_inv s'"
    by (auto intro: update_profiles_inv)
qed

lemma run_profiles_inv: "profiles_inv s \<Longrightarrow> profiles_inv (run sts s)"
proof (induction sts arbitrary: s)
  case Nil
  then show ?case by simp
next
  case (Cons st sts)
  have "profiles_inv (state_after (execute st s) s)"
    using Cons.prems
    by (cases "execute st s") (auto simp: state_after_def intro: execute_profiles_inv)
  then show ?case
    by (simp add: Cons.IH)
qed

lemma reachable_profiles_inv: "profiles_inv (run sts empty_db)"
  by (rule run_profiles_inv) (simp add: profiles_inv_def empty_db_def)

text \<open>
  Claim C8, as stated, fails: nothing in the schema keeps \<^verbatim>\<open>created_at\<close> out of an
  update, so the owner of a row can set it. Here the owner of the first example row sets
  its \<^verbatim>\<open>created_at\<close> from 10 to 99.
\<close>

theorem created_at_can_be_updated:
  "update_alunos (Some ''u1'') 50 ''a1'' backdate example_db
     = Inr (example_db\<lparr>alunos := [ana\<lparr>a_created_at := 99, a_updated_at := 50\<rparr>, bia]\<rparr>)
   \<and> a_created_at ana = 10"
  by (simp add: update_alunos_def extract_def backdate_def no_change_def example_db_def ana_def
      bia_def alunos_policy_def aluno_set_def coalesce_def update_updated_at_column_aluno_def
      alunos_idade_check_def profile1_def profile2_def)

text \<open>
  Claim C8, amended. An update that changes a student row or a profile row leaves it with
  \<^verbatim>\<open>updated_at\<close> equal to the current time, whatever \<^verbatim>\<open>updated_at\<close> the payload
  carries; its \<^verbatim>\<open>created_at\<close> is the payload's when the payload carries one, and the
  stored one otherwise. (The key of the table is unique, as it is in every state the store
  can reach, so the row of that key is the row at one position.)
\<close>

theorem update_refreshes_updated_at:
  "(distinct (map a_id (alunos s)) \<and> update_alunos uid now target p s = Inr s'
      \<and> i < length (alunos s) \<and> a_id (alunos s ! i) = target
      \<and> alunos_policy uid (a_criado_por (alunos s ! i))
    \<longrightarrow> length (alunos s') = length (alunos s) \<and> a_updated_at (alunos s' ! i) = now
        \<and> a_created_at (alunos s' ! i) = coalesce (pl_created_at p) (a_created_at (alunos s ! i)))
   \<and> (distinct (map p_id (profiles s)) \<and> update_profiles uid now target q s = Inr t'
      \<and> j < length (profiles s) \<and> p_id (profiles s ! j) = target
      \<and> profiles_policy uid (p_id (profiles s ! j))
    \<longrightarrow> length (profiles t') = length (profiles s) \<and> p_updated_at (profiles t' ! j) = now
        \<and> p_created_at (profiles t' ! j) = coalesce (pp_created_at q) (p_created_at (profiles s ! j)))"
  using update_alunos_row [of s uid now target p s' i]
    update_profiles_row [of s uid now target q t' j]
  by blast

theorem update_refreshes_updated_at_witness:
  "update_alunos (Some ''u1'') 50 ''a1'' stale_stamp example_db
     = Inr (example_db\<lparr>alunos := [ana\<lparr>a_idade := 21, a_updated_at := 50\<rparr>, bia]\<rparr>)
   \<and> pl_updated_at stale_stamp = Some 7
   \<and> a_updated_at (alunos (example_db\<lparr>alunos := [ana\<lparr>a_idade := 21, a_updated_at := 50\<rparr>, bia]\<rparr>) ! 0) = 50
   \<and> a_created_at (alunos (example_db\<lparr>alunos := [ana\<lparr>a_idade := 21, a_updated_at := 50\<rparr>, bia]\<rparr>) ! 0)
       = coalesce (pl_created_at stale_stamp) (a_created_at (alunos example_db ! 0))
   \<and> update_profiles (Some ''u1'') 50 ''u1'' rename_profile example_db
     = Inr (example_db\<lparr>profiles := [profile1\<lparr>p_nome := ''Prof Primeiro'', p_updated_at := 50\<rparr>,
                                      profile2]\<rparr>)
   \<and> pp_updated_at rename_profile = Some 7
   \<and> p_updated_at (profiles (example_db\<lparr>profiles :=
         [profile1\<lparr>p_nome := ''Prof Primeiro'', p_updated_at := 50\<rparr>, profile2]\<rparr>) ! 0) = 50
   \<and> p_created_at (profiles (example_db\<lparr>profiles :=
         [profile1\<lparr>p_nome := ''Prof Primeiro'', p_updated_at := 50\<rparr>, profile2]\<rparr>) ! 0)
       = coalesce (pp_created_at rename_profile) (p_created_at (profiles example_db ! 0))"
proof -
  let ?s' = "example_db\<lparr>alunos := [ana\<lparr>a_idade := 21, a_updated_at := 50\<rparr>, bia]\<rparr>"
  let ?t' = "example_db\<lparr>profiles := [profile1\<lparr>p_nome := ''Prof Primeiro'', p_updated_at := 50\<rparr>,
                                      profile2]\<rparr>"
  note t1 = update_refreshes_updated_at [of example_db "Some ''u1''" 50 "''a1''" stale_stamp ?s' 0,
      THEN conjunct1]
  note t2 = update_refreshes_updated_at [of example_db "Some ''u1''" 50 "''u1''" stale_stamp ?s' 0
      rename_profile ?t' 0, THEN conjunct2]
  have h1: "distinct (map a_id (alunos example_db))
      \<and> update_alunos (Some ''u1'') 50 ''a1'' stale_stamp example_db = Inr ?s'
      \<and> 0 < length (alunos example_db) \<and> a_id (alunos example_db ! 0) = ''a1''
      \<and> alunos_policy (Some ''u1'') (a_criado_por (alunos example_db ! 0))"
    using example_stale_stamp
    by (simp add: example_db_def ana_def bia_def alunos_policy_def)
  have h2: "distinct (map p_id (profiles example_db))
      \<and> update_profiles (Some ''u1'') 50 ''u1'' rename_profile example_db = Inr ?t'
      \<and> 0 < length (profiles example_db) \<and> p_id (profiles example_db ! 0) = ''u1''
      \<and> profiles_policy (Some ''u1'') (p_id (profiles example_db ! 0))"
    using example_rename_profile
    by (simp add: example_db_def profile1_def profile2_def profiles_policy_def)
  have s1: "pl_updated_at stale_stamp = Some 7"
    by (simp add: stale_stamp_def no_change_def)
  have s2: "pp_updated_at rename_profile = Some 7"
    by (simp add: rename_profile_def)
  from t1 t2 h1 h2 s1 s2 show ?thesis
    by blast
qed

subsection \<open>The profile of a new identity\<close>

lemma create_identity_Inr:
  assumes "create_identity now u s = Inr s'"
  shows "\<exists>e. u_email u = Some e \<and> u_id u \<notin> set (map u_id (users s))
     \<and> u_id u \<notin> set (map p_id (profiles s))
     \<and> s' = s\<lparr>users := users s @ [u],
              profiles := profiles s @
                [\<lparr>p_id = u_id u, p_nome = coalesce (u_raw_user_meta_data u ''nome'') [],
                  p_email = e, p_created_at = now, p_updated_at = now\<rparr>]\<rparr>"
  using assms
  by (auto simp: create_identity_def handle_new_user_def split: if_splits option.splits)

lemma example_signup: "create_identity 3 user3 example_db = Inr example_db3"
  by (simp add: create_identity_def handle_new_user_def example_db_def example_db3_def user1_def
      user2_def user3_def profile1_def profile2_def profile3_def coalesce_def)

text \<open>
  Claim C9. When the creation of an identity succeeds, the identity is the one new user
  and the one new profile is the only profile of its id, with its email, with the name
  taken from the metadata key \<^verbatim>\<open>nome\<close> or empty when there is none, and nothing else
  has changed; when the provisioning of the profile fails, so does the creation of the
  identity.
\<close>

theorem create_identity_provisions_profile:
  "(create_identity now u s = Inr s' \<longrightarrow>
      users s' = users s @ [u]
      \<and> (\<exists>e. u_email u = Some e
            \<and> profiles s' = profiles s @
                [\<lparr>p_id = u_id u, p_nome = coalesce (u_raw_user_meta_data u ''nome'') [],
                  p_email = e, p_created_at = now, p_updated_at = now\<rparr>])
      \<and> length (filter (\<lambda>r. p_id r = u_id u) (profiles s')) = 1
      \<and> alunos s' = alunos s)
   \<and> ((\<exists>err. handle_new_user now u (s\<lparr>users := users s @ [u]\<rparr>) = Inl err) \<longrightarrow>
        (\<exists>err. create_identity now u s = Inl err))"
proof (intro conjI impI)
  assume c: "create_identity now u s = Inr s'"
  from create_identity_Inr [OF c] obtain e where e: "u_email u = Some e"
    "u_id u \<notin> set (map p_id (profiles s))"
    "s' = s\<lparr>users := users s @ [u],
              profiles := profiles s @
                [\<lparr>p_id = u_id u, p_nome = coalesce (u_raw_user_meta_data u ''nome'') [],
                  p_email = e, p_created_at = now, p_updated_at = now\<rparr>]\<rparr>"
    by blast
  from e(3) show "users s' = users s @ [u]" by simp
  from e(1,3) show "\<exists>e. u_email u = Some e
            \<and> profiles s' = profiles s @
                [\<lparr>p_id = u_id u, p_nome = coalesce (u_raw_user_meta_data u ''nome'') [],
                  p_email = e, p_created_at = now, p_updated_at = now\<rparr>]"
    by simp
  from e(2) have "filter (\<lambda>r. p_id r = u_id u) (profiles s) = []"
    by (force simp: filter_empty_conv image_iff)
  with e(3) show "length (filter (\<lambda>r. p_id r = u_id u) (profiles s')) = 1"
    by simp
  from e(3) show "alunos s' = alunos s" by simp
next
  assume "\<exists>err. handle_new_user now u (s\<lparr>users := users s @ [u]\<rparr>) = Inl err"
  then show "\<exists>err. create_identity now u s = Inl err"
    by (auto simp: create_identity_def)
qed

theorem create_identity_provisions_profile_witness:
  "create_identity 3 user3 example_db = Inr example_db3
   \<and> users example_db3 = users example_db @ [user3]
   \<and> length (filter (\<lambda>r. p_id r = u_id user3) (profiles example_db3)) = 1
   \<and> alunos example_db3 = alunos example_db
   \<and> (\<exists>err. create_identity 3 (user3\<lparr>u_email := None\<rparr>) example_db = Inl err)"
proof -
  note t1 = create_identity_provisions_profile [of 3 user3 example_db example_db3, THEN conjunct1]
  note t2 = create_identity_provisions_profile
      [of 3 "user3\<lparr>u_email := None\<rparr>" example_db example_db3, THEN conjunct2]
  have h2: "\<exists>err. handle_new_user 3 (user3\<lparr>u_email := None\<rparr>)
                    (example_db\<lparr>users := users example_db @ [user3\<lparr>u_email := None\<rparr>]\<rparr>) = Inl err"
    by (simp add: handle_new_user_def)
  from t1 t2 h2 example_signup show ?thesis
    by blast
qed

section \<open>Properties of the client\<close>

subsection \<open>Validation\<close>

lemma idade_issues_empty_iff:
  "idade_issues n = [] \<longleftrightarrow> (case n of Finite a \<Rightarrow> 1 \<le> a \<and> a \<le> 150 | _ \<Rightarrow> False)"
  by (cases n) (auto simp: idade_issues_def)

lemma nome_issues_empty_iff:
  "nome_issues v = [] \<longleftrightarrow> 2 \<le> length (trim v) \<and> length (trim v) \<le> 100"
  by (auto simp: nome_issues_def Let_def)

lemma email_issues_empty_iff:
  "email_issues email_ok v = [] \<longleftrightarrow> email_ok (trim v) \<and> length (trim v) \<le> 255"
  by (auto simp: email_issues_def Let_def)

lemma matricula_issues_empty_iff:
  "matricula_issues v = [] \<longleftrightarrow> 3 \<le> length (trim v) \<and> length (trim v) \<le> 50"
  by (auto simp: matricula_issues_def Let_def)

lemma all_issues_empty_iff: "all_issues email_ok f = [] \<longleftrightarrow> trimmed_accepts email_ok f"
  by (simp add: all_issues_def trimmed_accepts_def nome_issues_empty_iff email_issues_empty_iff
      matricula_issues_empty_iff idade_issues_empty_iff)

lemma parse_cases:
  "alunoSchema_parse email_ok (fd_nome f) (fd_email f) (fd_matricula f) (parseInt (fd_idade f)) =
     (if all_issues email_ok f = [] then
        Inr \<lparr>v_nome = trim (fd_nome f), v_email = trim (fd_email f),
             v_matricula = trim (fd_matricula f),
             v_idade = (case parseInt (fd_idade f) of Finite a \<Rightarrow> a | _ \<Rightarrow> 0)\<rparr>
      else Inl (all_issues email_ok f))"
proof (cases "all_issues email_ok f")
  case Nil
  then have "idade_issues (parseInt (fd_idade f)) = []"
    by (simp add: all_issues_def)
  then obtain a where "parseInt (fd_idade f) = Finite a"
    by (auto simp: idade_issues_empty_iff split: js_number.splits)
  with Nil show ?thesis
    by (simp add: alunoSchema_parse_def all_issues_def)
next
  case (Cons i rest)
  then show ?thesis
    by (simp add: alunoSchema_parse_def all_issues_def Let_def split: list.splits js_number.splits)
qed

lemma schema_accepts_iff: "schema_accepts email_ok f = trimmed_accepts email_ok f"
  by (simp add: schema_accepts_def parse_cases all_issues_empty_iff)

lemma first_issue:
  "all_issues email_ok f \<noteq> [] \<Longrightarrow>
   first_violation email_ok f = Some (i_message (hd (all_issues email_ok f)))"
  by (cases "parseInt (fd_idade f)")
    (auto simp: all_issues_def first_violation_def Let_def nome_issues_def email_issues_def
      matricula_issues_def idade_issues_def split: if_splits)

lemma handleSubmit_rejected:
  assumes "\<not> schema_accepts email_ok f"
  shows "handleSubmit email_ok user aluno f now g s =
           \<lparr>toasts = [ToastError (i_message (hd (all_issues email_ok f)))], requests = [],
            store = s, refreshed = False\<rparr>"
proof -
  from assms have ne: "all_issues email_ok f \<noteq> []"
    by (simp add: schema_accepts_iff all_issues_empty_iff)
  then obtain i rest where "all_issues email_ok f = i # rest"
    by (cases "all_issues email_ok f") auto
  then show ?thesis
    by (simp add: handleSubmit_def parse_cases)
qed

lemma parseInt_20: "parseInt ''20'' = Finite 20"
  by (simp add: parseInt_def js_whitespace_def radix_digit_def digit_value_def digits_value_def
      to_number_def)

lemma trim_padded: "trim '' a'' = ''a''"
  by (simp add: trim_def js_whitespace_def)

lemma trim_plain:
  "trim ''A'' = ''A''" "trim ''Carla Dias'' = ''Carla Dias''" "trim ''carla@x.com'' = ''carla@x.com''"
  "trim ''M003'' = ''M003''"
  by (simp_all add: trim_def js_whitespace_def)

text \<open>
  Claim C5, as stated, fails: the schema trims each text before it measures it. A name
  of a space and one letter has length 2, so the rule as worded accepts the form, and the
  schema rejects it.
\<close>

theorem padded_name_rejected:
  "spec_accepts contains_at (carla_form '' a'' ''20'')
   \<and> \<not> schema_accepts contains_at (carla_form '' a'' ''20'')"
  by (simp add: schema_accepts_iff trimmed_accepts_def spec_accepts_def carla_form_def
      contains_at_def parseInt_20 trim_padded)

text \<open>
  Claim C5, amended. The schema accepts a form exactly when, after trimming the white
  space around each text, the name has 2 to 100 characters, the email is well-formed and
  has at most 255, the registration code has 3 to 50, and the number that
  \<^verbatim>\<open>parseInt\<close> reads from the age text is an integer from 1 to 150. When it does not
  accept, \<^verbatim>\<open>handleSubmit\<close> sends no request, leaves the store as it is, and shows the
  message of the first violated rule, in the order of the fields.
\<close>

theorem validation_accepts_iff:
  "schema_accepts email_ok f = trimmed_accepts email_ok f
   \<and> (\<not> schema_accepts email_ok f \<longrightarrow>
        requests (handleSubmit email_ok user aluno f now g s) = []
        \<and> store (handleSubmit email_ok user aluno f now g s) = s
        \<and> (\<exists>m. first_violation email_ok f = Some m
               \<and> toasts (handleSubmit email_ok user aluno f now g s) = [ToastError m]))"
proof (intro conjI impI)
  show "schema_accepts email_ok f = trimmed_accepts email_ok f"
    by (rule schema_accepts_iff)
next
  assume r: "\<not> schema_accepts email_ok f"
  note h = handleSubmit_rejected [OF r, of user aluno now g s]
  from h show "requests (handleSubmit email_ok user aluno f now g s) = []" by simp
  from h show "store (handleSubmit email_ok user aluno f now g s) = s" by simp
  from r have "all_issues email_ok f \<noteq> []"
    by (simp add: schema_accepts_iff all_issues_empty_iff)
  then have "first_violation email_ok f = Some (i_message (hd (all_issues email_ok f)))"
    by (rule first_issue)
  with h show "\<exists>m. first_violation email_ok f = Some m
               \<and> toasts (handleSubmit email_ok user aluno f now g s) = [ToastError m]"
    by simp
qed

theorem validation_accepts_iff_witness:
  "\<not> schema_accepts contains_at (carla_form ''A'' ''20'')
   \<and> requests (handleSubmit contains_at (Some ''u1'') None (carla_form ''A'' ''20'') 30 ''a3''
                 example_db) = []
   \<and> store (handleSubmit contains_at (Some ''u1'') None (carla_form ''A'' ''20'') 30 ''a3''
              example_db) = example_db
   \<and> first_violation contains_at (carla_form ''A'' ''20'') = Some msg_nome_min
   \<and> toasts (handleSubmit contains_at (Some ''u1'') None (carla_form ''A'' ''20'') 30 ''a3''
               example_db) = [ToastError msg_nome_min]"
proof -
  note t = validation_accepts_iff [of contains_at "carla_form ''A'' ''20''" "Some ''u1''" None 30
      "''a3''" example_db]
  have h: "\<not> schema_accepts contains_at (carla_form ''A'' ''20'')"
    by (simp add: schema_accepts_iff trimmed_accepts_def carla_form_def trim_plain)
  have v: "first_violation contains_at (carla_form ''A'' ''20'') = Some msg_nome_min"
    by (simp add: first_violation_def carla_form_def trim_plain)
  from t h v show ?thesis
    by auto
qed

subsection \<open>What an edit can change\<close>

lemma update_payload_keeps:
  assumes "update_alunos uid now target (update_payload v) s = Inr s'"
  shows "map a_id (alunos s') = map a_id (alunos s)
         \<and> map a_criado_por (alunos s') = map a_criado_por (alunos s)
         \<and> map a_created_at (alunos s') = map a_created_at (alunos s)
         \<and> users s' = users s \<and> profiles s' = profiles s"
proof -
  from update_alunos_Inr [OF assms] show ?thesis
  proof (elim disjE exE conjE)
    assume "s' = s"
    then show ?thesis by simp
  next
    fix before old after new
    assume a: "alunos s = before @ old # after" "s' = s\<lparr>alunos := before @ new # after\<rparr>"
      "new = (aluno_set (update_payload v) old)\<lparr>a_updated_at := now\<rparr>"
    from a(3) have "a_id new = a_id old" "a_criado_por new = a_criado_por old"
      "a_created_at new = a_created_at old"
      by (simp_all add: aluno_set_def update_payload_def coalesce_def)
    with a(1,2) show ?thesis by simp
  qed
qed

text \<open>
  Claim C10. When the form edits a row, the one request it may send is an update of that
  row's id whose payload holds the four validated fields and nothing else; after
  \<^verbatim>\<open>handleSubmit\<close> the ids, the owners and the creation times of the rows of the table
  are what they were, row by row.
\<close>

theorem edit_keeps_id_owner_created_at:
  "(requests (handleSubmit email_ok user (Some a) f now g s) = []
    \<or> (\<exists>nome email matricula idade.
          requests (handleSubmit email_ok user (Some a) f now g s) =
            [Update (a_id a)
               \<lparr>pl_id = None, pl_nome = Some nome, pl_email = Some email,
                pl_matricula = Some matricula, pl_idade = Some idade, pl_criado_por = None,
                pl_created_at = None, pl_updated_at = None\<rparr>]))
   \<and> map a_id (alunos (store (handleSubmit email_ok user (Some a) f now g s))) = map a_id (alunos s)
   \<and> map a_criado_por (alunos (store (handleSubmit email_ok user (Some a) f now g s)))
       = map a_criado_por (alunos s)
   \<and> map a_created_at (alunos (store (handleSubmit email_ok user (Some a) f now g s)))
       = map a_created_at (alunos s)"
proof (cases "schema_accepts email_ok f")
  case False
  then show ?thesis
    by (simp add: handleSubmit_rejected)
next
  case True
  then have e: "all_issues email_ok f = []"
    by (simp add: schema_accepts_iff all_issues_empty_iff)
  show ?thesis
  proof (cases user)
    case None
    with e show ?thesis
      by (simp add: handleSubmit_def parse_cases)
  next
    case (Some user_id)
    let ?v = "\<lparr>v_nome = trim (fd_nome f), v_email = trim (fd_email f),
               v_matricula = trim (fd_matricula f),
               v_idade = (case parseInt (fd_idade f) of Finite a \<Rightarrow> a | _ \<Rightarrow> 0)\<rparr>"
    show ?thesis
    proof (cases "update_alunos (Some user_id) now (a_id a) (update_payload ?v) s")
      case (Inl err)
      with e Some show ?thesis
        by (simp add: handleSubmit_def parse_cases update_payload_def)
    next
      case (Inr s')
      from update_payload_keeps [OF Inr] e Some Inr show ?thesis
        by (simp add: handleSubmit_def parse_cases update_payload_def)
    qed
  qed
qed

subsection \<open>The age bound of the form and of the table\<close>

lemma parseInt_150: "parseInt ''150'' = Finite 150"
  by (simp add: parseInt_def js_whitespace_def radix_digit_def digit_value_def digits_value_def
      to_number_def)

text \<open>
  With every other column valid and free of conflict, the table takes the ages from 1
  to 149 and no other.
\<close>

lemma insert_alunos_idade_iff:
  assumes "pl_nome p = Some nome" "pl_email p = Some email" "pl_matricula p = Some matricula"
    and "pl_criado_por p = Some u" "uid = Some u" "u \<in> set (map p_id (profiles s))"
    and "coalesce (pl_id p) g \<notin> set (map a_id (alunos s))"
    and "email \<notin> set (map a_email (alunos s))"
    and "matricula \<notin> set (map a_matricula (alunos s))"
    and "pl_idade p = Some a"
  shows "(\<exists>s'. insert_alunos uid now g p s = Inr s') \<longleftrightarrow> 1 \<le> a \<and> a \<le> 149"
  using assms
  by (auto simp: insert_alunos_def alunos_policy_def alunos_idade_check_def in_integer_range_def)

text \<open>
  Claim C3 on the code. The form's schema accepts the age 150 (\<^verbatim>\<open>max(150)\<close>), and the
  table's \<^verbatim>\<open>CHECK (idade > 0 AND idade < 150)\<close> rejects it: the insert that the form
  sends for a new student of age 150, every other field valid and free of conflict, ends
  in a check violation, and the form shows its generic failure text.
\<close>

theorem idade_150_passes_form_fails_table:
  "schema_accepts contains_at (carla_form ''Carla Dias'' ''150'')
   \<and> insert_alunos (Some ''u1'') 30 ''a3''
        (new_aluno ''Carla Dias'' ''carla@x.com'' ''M003'' 150 ''u1'') example_db
       = Inl (CheckViolation ''alunos'' ''alunos_idade_check'')
   \<and> handleSubmit contains_at (Some ''u1'') None (carla_form ''Carla Dias'' ''150'') 30 ''a3''
        example_db
       = \<lparr>toasts = [ToastError msg_erro_criar],
          requests = [Insert (new_aluno ''Carla Dias'' ''carla@x.com'' ''M003'' 150 ''u1'')],
          store = example_db, refreshed = False\<rparr>"
proof (intro conjI)
  show a: "schema_accepts contains_at (carla_form ''Carla Dias'' ''150'')"
    by (simp add: schema_accepts_iff trimmed_accepts_def carla_form_def trim_plain parseInt_150
        contains_at_def)
  show i: "insert_alunos (Some ''u1'') 30 ''a3''
        (new_aluno ''Carla Dias'' ''carla@x.com'' ''M003'' 150 ''u1'') example_db
       = Inl (CheckViolation ''alunos'' ''alunos_idade_check'')"
    by (simp add: insert_alunos_def new_aluno_def alunos_policy_def alunos_idade_check_def
        in_integer_range_def)
  from a have "all_issues contains_at (carla_form ''Carla Dias'' ''150'') = []"
    by (simp add: schema_accepts_iff all_issues_empty_iff)
  then have p: "alunoSchema_parse contains_at ''Carla Dias'' ''carla@x.com'' ''M003'' (parseInt ''150'')
      = Inr \<lparr>v_nome = ''Carla Dias'', v_email = ''carla@x.com'', v_matricula = ''M003'',
             v_idade = 150\<rparr>"
    using parse_cases [of contains_at "carla_form ''Carla Dias'' ''150''"]
    by (simp add: carla_form_def trim_plain parseInt_150)
  have m: "report_error msg_erro_criar (pg_message (CheckViolation ''alunos'' ''alunos_idade_check''))
      = [ToastError msg_erro_criar]"
    by (simp add: report_error_def)
  from p i m show "handleSubmit contains_at (Some ''u1'') None (carla_form ''Carla Dias'' ''150'') 30
        ''a3'' example_db
       = \<lparr>toasts = [ToastError msg_erro_criar],
          requests = [Insert (new_aluno ''Carla Dias'' ''carla@x.com'' ''M003'' 150 ''u1'')],
          store = example_db, refreshed = False\<rparr>"
    by (simp add: handleSubmit_def carla_form_def insert_payload_def new_aluno_def)
qed

subsection \<open>Store errors and the messages shown\<close>

lemma insert_alunos_errors: "insert_alunos uid now g p s = Inl err \<Longrightarrow> err \<in> set alunos_errors"
  by (auto simp: insert_alunos_def alunos_errors_def split: if_splits option.splits)

lemma update_alunos_errors: "update_alunos uid now target p s = Inl err \<Longrightarrow> err \<in> set alunos_errors"
  by (auto simp: update_alunos_def alunos_errors_def Let_def split: if_splits option.splits)

text \<open>What the form shows for each of them.\<close>

lemma report_error_email:
  "report_error generic (pg_message (UniqueViolation ''alunos_email_key''))
     = [ToastError msg_email_cadastrado]"
  by (simp add: report_error_def)

lemma report_error_matricula:
  "report_error generic (pg_message (UniqueViolation ''alunos_matricula_key''))
     = [ToastError msg_matricula_cadastrada]"
  by (simp add: report_error_def)

lemma report_error_pkey: "report_error generic (pg_message (UniqueViolation ''alunos_pkey'')) = []"
  by (simp add: report_error_def)

lemma report_error_generic:
  "report_error generic (pg_message NumericValueOutOfRange) = [ToastError generic]"
  "report_error generic (pg_message (RlsViolation ''alunos'')) = [ToastError generic]"
  "report_error generic (pg_message (NotNullViolation ''alunos'' ''nome'')) = [ToastError generic]"
  "report_error generic (pg_message (NotNullViolation ''alunos'' ''email'')) = [ToastError generic]"
  "report_error generic (pg_message (NotNullViolation ''alunos'' ''matricula'')) = [ToastError generic]"
  "report_error generic (pg_message (NotNullViolation ''alunos'' ''idade'')) = [ToastError generic]"
  "report_error generic (pg_message (CheckViolation ''alunos'' ''alunos_idade_check''))
     = [ToastError generic]"
  "report_error generic (pg_message (ForeignKeyViolation ''alunos'' ''alunos_criado_por_fkey''))
     = [ToastError generic]"
  by (simp_all add: report_error_def)

text \<open>
  A duplicate key on the primary key would get no message, since its text names neither
  field (\<open>report_error_pkey\<close>). The requests of the form carry no id, so that error needs
  the generated id of an insert to be the id of a stored row; with a fresh id, and the ids
  of the table distinct as they are in every state the store can reach, it does not arise.
\<close>

lemma insert_alunos_no_pkey:
  assumes "pl_id p = None" and "g \<notin> set (map a_id (alunos s))"
  shows "insert_alunos uid now g p s \<noteq> Inl (UniqueViolation ''alunos_pkey'')"
  using assms
  by (auto simp: insert_alunos_def coalesce_def split: if_splits option.splits)

lemma update_alunos_no_pkey:
  assumes "pl_id p = None" and "distinct (map a_id (alunos s))"
  shows "update_alunos uid now target p s \<noteq> Inl (UniqueViolation ''alunos_pkey'')"
proof (cases "List.extract (\<lambda>r. a_id r = target \<and> alunos_policy uid (a_criado_por r)) (alunos s)")
  case None
  then show ?thesis
    by (simp add: update_alunos_def)
next
  case (Some t)
  obtain before old after where t: "t = (before, old, after)"
    by (cases t)
  from Some t have "alunos s = before @ old # after"
    by (auto dest: extract_split)
  with assms(2) have "a_id old \<notin> set (map a_id (before @ after))"
    by auto
  with assms(1) Some t show ?thesis
    by (auto simp: update_alunos_def Let_def update_updated_at_column_aluno_def aluno_set_def
        coalesce_def split: if_splits)
qed

lemma report_error_expected:
  assumes "err \<in> set alunos_errors" and "err \<noteq> UniqueViolation ''alunos_pkey''"
  shows "report_error generic (pg_message err) = [expected_toast generic err]"
  using assms report_error_email [of generic] report_error_matricula [of generic]
    report_error_generic [of generic]
  by (auto simp: alunos_errors_def expected_toast_def)

text \<open>The field that a unique violation names is the field that collides.\<close>

lemma insert_alunos_collision:
  "insert_alunos uid now g p s = Inl (UniqueViolation ''alunos_email_key'') \<Longrightarrow>
     \<exists>e. pl_email p = Some e \<and> e \<in> set (map a_email (alunos s))"
  "insert_alunos uid now g p s = Inl (UniqueViolation ''alunos_matricula_key'') \<Longrightarrow>
     \<exists>m. pl_matricula p = Some m \<and> m \<in> set (map a_matricula (alunos s))"
  by (auto simp: insert_alunos_def split: if_splits option.splits)

lemma update_alunos_collision:
  "update_alunos uid now target p s = Inl (UniqueViolation ''alunos_email_key'') \<Longrightarrow>
     pl_email p = Some e \<Longrightarrow> e \<in> set (map a_email (alunos s))"
  "update_alunos uid now target p s = Inl (UniqueViolation ''alunos_matricula_key'') \<Longrightarrow>
     pl_matricula p = Some m \<Longrightarrow> m \<in> set (map a_matricula (alunos s))"
  by (auto simp: update_alunos_def Let_def update_updated_at_column_aluno_def aluno_set_def
      coalesce_def split: if_splits option.splits dest!: extract_split)

lemma example_parse:
  "alunoSchema_parse contains_at (fd_nome dup_email_form) (fd_email dup_email_form)
     (fd_matricula dup_email_form) (parseInt (fd_idade dup_email_form))
   = Inr \<lparr>v_nome = ''Ana Souza'', v_email = ''ana@x.com'', v_matricula = ''M003'', v_idade = 22\<rparr>"
  "alunoSchema_parse contains_at (fd_nome dup_matricula_form) (fd_email dup_matricula_form)
     (fd_matricula dup_matricula_form) (parseInt (fd_idade dup_matricula_form))
   = Inr \<lparr>v_nome = ''Bia Souza'', v_email = ''bia@x.com'', v_matricula = ''M001'', v_idade = 31\<rparr>"
  by (simp_all add: alunoSchema_parse_def nome_issues_def email_issues_def matricula_issues_def
      idade_issues_def dup_email_form_def dup_matricula_form_def trim_def js_whitespace_def
      contains_at_def parseInt_def radix_digit_def digit_value_def digits_value_def to_number_def)

text \<open>
  Claim C6. When the store rejects the insert or the update that the form sends (the
  validated fields, the generated id fresh, the ids of the table distinct), the form shows
  exactly one message: the conflict text of the email when the error is the unique
  violation on the email, that of the registration code when it is the one on the
  registration code, and the generic failure text of the action for every other error;
  and the field the error names is one whose value a stored row already has.
\<close>

theorem rejected_request_shows_message:
  "(alunoSchema_parse email_ok (fd_nome f) (fd_email f) (fd_matricula f) (parseInt (fd_idade f))
        = Inr v
      \<and> g \<notin> set (map a_id (alunos s))
      \<and> insert_alunos (Some u) now g (insert_payload v u) s = Inl err
    \<longrightarrow> handleSubmit email_ok (Some u) None f now g s
          = \<lparr>toasts = [expected_toast msg_erro_criar err],
             requests = [Insert (insert_payload v u)], store = s, refreshed = False\<rparr>
        \<and> (err = UniqueViolation ''alunos_email_key'' \<longrightarrow> v_email v \<in> set (map a_email (alunos s)))
        \<and> (err = UniqueViolation ''alunos_matricula_key''
             \<longrightarrow> v_matricula v \<in> set (map a_matricula (alunos s))))
   \<and> (alunoSchema_parse email_ok (fd_nome f) (fd_email f) (fd_matricula f) (parseInt (fd_idade f))
        = Inr v
      \<and> distinct (map a_id (alunos s))
      \<and> update_alunos (Some u) now (a_id a) (update_payload v) s = Inl err
    \<longrightarrow> handleSubmit email_ok (Some u) (Some a) f now g s
          = \<lparr>toasts = [expected_toast msg_erro_atualizar err],
             requests = [Update (a_id a) (update_payload v)], store = s, refreshed = False\<rparr>
        \<and> (err = UniqueViolation ''alunos_email_key'' \<longrightarrow> v_email v \<in> set (map a_email (alunos s)))
        \<and> (err = UniqueViolation ''alunos_matricula_key''
             \<longrightarrow> v_matricula v \<in> set (map a_matricula (alunos s))))"
proof (intro conjI impI)
  assume a: "alunoSchema_parse email_ok (fd_nome f) (fd_email f) (fd_matricula f)
        (parseInt (fd_idade f)) = Inr v
      \<and> g \<notin> set (map a_id (alunos s))
      \<and> insert_alunos (Some u) now g (insert_payload v u) s = Inl err"
  then have i: "insert_alunos (Some u) now g (insert_payload v u) s = Inl err"
    by simp
  have "pl_id (insert_payload v u) = None"
    by (simp add: insert_payload_def)
  with a have "err \<noteq> UniqueViolation ''alunos_pkey''"
    using insert_alunos_no_pkey [of "insert_payload v u" g s "Some u" now] by auto
  with i have "report_error msg_erro_criar (pg_message err) = [expected_toast msg_erro_criar err]"
    by (intro report_error_expected insert_alunos_errors)
  with a show "handleSubmit email_ok (Some u) None f now g s
          = \<lparr>toasts = [expected_toast msg_erro_criar err],
             requests = [Insert (insert_payload v u)], store = s, refreshed = False\<rparr>"
    by (simp add: handleSubmit_def)
  {
    assume "err = UniqueViolation ''alunos_email_key''"
    with i show "v_email v \<in> set (map a_email (alunos s))"
      using insert_alunos_collision(1) [of "Some u" now g "insert_payload v u" s]
      by (auto simp: insert_payload_def)
  }
  {
    assume "err = UniqueViolation ''alunos_matricula_key''"
    with i show "v_matricula v \<in> set (map a_matricula (alunos s))"
      using insert_alunos_collision(2) [of "Some u" now g "insert_payload v u" s]
      by (auto simp: insert_payload_def)
  }
next
  assume a: "alunoSchema_parse email_ok (fd_nome f) (fd_email f) (fd_matricula f)
        (parseInt (fd_idade f)) = Inr v
      \<and> distinct (map a_id (alunos s))
      \<and> update_alunos (Some u) now (a_id a) (update_payload v) s = Inl err"
  then have i: "update_alunos (Some u) now (a_id a) (update_payload v) s = Inl err"
    by simp
  have "pl_id (update_payload v) = None"
    by (simp add: update_payload_def)
  with a have "err \<noteq> UniqueViolation ''alunos_pkey''"
    using update_alunos_no_pkey [of "update_payload v" s "Some u" now "a_id a"] by auto
  with i have "report_error msg_erro_atualizar (pg_message err)
      = [expected_toast msg_erro_atualizar err]"
    by (intro report_error_expected update_alunos_errors)
  with a show "handleSubmit email_ok (Some u) (Some a) f now g s
          = \<lparr>toasts = [expected_toast msg_erro_atualizar err],
             requests = [Update (a_id a) (update_payload v)], store = s, refreshed = False\<rparr>"
    by (simp add: handleSubmit_def)
  {
    assume "err = UniqueViolation ''alunos_email_key''"
    with i show "v_email v \<in> set (map a_email (alunos s))"
      using update_alunos_collision(1) [of "Some u" now "a_id a" "update_payload v" s "v_email v"]
      by (simp add: update_payload_def)
  }
  {
    assume "err = UniqueViolation ''alunos_matricula_key''"
    with i show "v_matricula v \<in> set (map a_matricula (alunos s))"
      using update_alunos_collision(2) [of "Some u" now "a_id a" "update_payload v" s
          "v_matricula v"]
      by (simp add: update_payload_def)
  }
qed

theorem rejected_request_shows_message_witness:
  "handleSubmit contains_at (Some ''u1'') None dup_email_form 30 ''a3'' example_db
     = \<lparr>toasts = [ToastError msg_email_cadastrado],
        requests = [Insert (insert_payload
                      \<lparr>v_nome = ''Ana Souza'', v_email = ''ana@x.com'', v_matricula = ''M003'',
                       v_idade = 22\<rparr> ''u1'')],
        store = example_db, refreshed = False\<rparr>
   \<and> handleSubmit contains_at (Some ''u2'') (Some bia) dup_matricula_form 30 ''a3'' example_db
     = \<lparr>toasts = [ToastError msg_matricula_cadastrada],
        requests = [Update (a_id bia) (update_payload
                      \<lparr>v_nome = ''Bia Souza'', v_email = ''bia@x.com'', v_matricula = ''M001'',
                       v_idade = 31\<rparr>)],
        store = example_db, refreshed = False\<rparr>"
proof -
  let ?v1 = "\<lparr>v_nome = ''Ana Souza'', v_email = ''ana@x.com'', v_matricula = ''M003'', v_idade = 22\<rparr>"
  let ?v2 = "\<lparr>v_nome = ''Bia Souza'', v_email = ''bia@x.com'', v_matricula = ''M001'', v_idade = 31\<rparr>"
  note t1 = rejected_request_shows_message [of contains_at dup_email_form ?v1 "''a3''" example_db
      "''u1''" 30 "UniqueViolation ''alunos_email_key''", THEN conjunct1]
  note t2 = rejected_request_shows_message [of contains_at dup_matricula_form ?v2 "''a3''"
      example_db "''u2''" 30 "UniqueViolation ''alunos_matricula_key''" bia, THEN conjunct2]
  have i1: "''a3'' \<notin> set (map a_id (alunos example_db))
      \<and> insert_alunos (Some ''u1'') 30 ''a3'' (insert_payload ?v1 ''u1'') example_db
          = Inl (UniqueViolation ''alunos_email_key'')"
    by (simp add: insert_alunos_def insert_payload_def example_db_def ana_def bia_def
        alunos_policy_def alunos_idade_check_def in_integer_range_def coalesce_def)
  have i2: "distinct (map a_id (alunos example_db))
      \<and> update_alunos (Some ''u2'') 30 (a_id bia) (update_payload ?v2) example_db
          = Inl (UniqueViolation ''alunos_matricula_key'')"
    by (simp add: update_alunos_def extract_def update_payload_def example_db_def ana_def bia_def
        alunos_policy_def alunos_idade_check_def in_integer_range_def coalesce_def aluno_set_def
        update_updated_at_column_aluno_def)
  have e: "expected_toast msg_erro_criar (UniqueViolation ''alunos_email_key'')
        = ToastError msg_email_cadastrado"
    "expected_toast msg_erro_atualizar (UniqueViolation ''alunos_matricula_key'')
        = ToastError msg_matricula_cadastrada"
    by (simp_all add: expected_toast_def)
  from t1 i1 example_parse(1) e(1)
  have a: "handleSubmit contains_at (Some ''u1'') None dup_email_form 30 ''a3'' example_db
     = \<lparr>toasts = [ToastError msg_email_cadastrado],
        requests = [Insert (insert_payload ?v1 ''u1'')], store = example_db, refreshed = False\<rparr>"
    by simp
  from t2 i2 example_parse(2) e(2)
  have b: "handleSubmit contains_at (Some ''u2'') (Some bia) dup_matricula_form 30 ''a3'' example_db
     = \<lparr>toasts = [ToastError msg_matricula_cadastrada],
        requests = [Update (a_id bia) (update_payload ?v2)], store = example_db,
        refreshed = False\<rparr>"
    by simp
  from a b show ?thesis
    by simp
qed

subsection \<open>Mutations without an identity\<close>

text \<open>The form checks the session before it sends anything.\<close>

lemma handleSubmit_unauthenticated:
  "requests (handleSubmit email_ok None aluno f now g s) = []
   \<and> store (handleSubmit email_ok None aluno f now g s) = s"
proof (cases "schema_accepts email_ok f")
  case False
  then show ?thesis by (simp add: handleSubmit_rejected)
next
  case True
  then have "all_issues email_ok f = []"
    by (simp add: schema_accepts_iff all_issues_empty_iff)
  then show ?thesis
    by (simp add: handleSubmit_def parse_cases)
qed

text \<open>
  Claim C7 on the code. \<^verbatim>\<open>handleDelete\<close> does not look at the session: with no
  identity and a row chosen (any id that is not empty) it sends the delete to the store
  all the same. The store's policy then matches no row, answers without error, and the
  dashboard reports the student as deleted.
\<close>

theorem handleDelete_unauthenticated_reaches_store:
  "handleDelete None (Some (c # target)) s
     = \<lparr>toasts = [ToastSuccess msg_excluido], requests = [Delete (c # target)], store = s,
        refreshed = True\<rparr>"
  by (simp add: handleDelete_def delete_alunos_def alunos_policy_def)

end
